theory Spec2Isabelle
  imports Main "HOL-Library.Word"
begin

unbundle bit_operations_syntax

section \<open>Package winutil (util/winutil/winutil_windows.go)\<close>

text \<open>
  The package is a thin layer over the Windows API and the Go standard library. None of
  those callees is part of the package, so each of them is a field of the record
  \<open>platform\<close>: for given arguments the field says what the call returns. Nothing is
  assumed about these fields. Every call the package makes is appended to a call log
  (\<open>world\<close>) together with its arguments and its result, so that the order of calls and
  the pairing of handle opens and closes can be read off afterwards.
\<close>

subsection \<open>Data\<close>

type_synonym Handle = nat  \<comment> \<open>windows.Handle, windows.Token, windows.HWND, registry.Key: uintptr\<close>

text \<open>
  Go \<open>error\<close> values. \<open>ErrNoShell\<close> is the package's own sentinel; \<open>Errno\<close> is a platform
  error code (\<open>syscall.Errno\<close>); \<open>ErrorString\<close> is an error that is known by its text only
  (built by \<open>fmt.Errorf\<close> with \<open>%v\<close>, or coming from the standard library).
\<close>

datatype error = ErrNoShell | Errno nat | ErrorString string

record LUID =
  LowPart :: "32 word"
  HighPart :: "32 word"

record LUIDAndAttributes =
  Luid :: LUID
  Attributes :: "32 word"

record Tokenprivileges =
  PrivilegeCount :: "32 word"
  Privileges :: "LUIDAndAttributes list"  \<comment> \<open>\<open>[1]LUIDAndAttributes\<close>\<close>

definition zero_LUID :: LUID where
  "zero_LUID = \<lparr>LowPart = 0, HighPart = 0\<rparr>"

definition zero_Tokenprivileges :: Tokenprivileges where
  "zero_Tokenprivileges =
     \<lparr>PrivilegeCount = 0, Privileges = [\<lparr>Luid = zero_LUID, Attributes = 0\<rparr>]\<rparr>"

record platform =
  errno_text :: "nat \<Rightarrow> string"  \<comment> \<open>\<open>syscall.Errno.Error\<close>\<close>
  os_GetShellWindow :: "Handle"
  os_GetWindowThreadProcessId :: "Handle \<Rightarrow> 32 word"  \<comment> \<open>the value left in \<open>pid\<close>\<close>
  os_OpenKey :: "string \<Rightarrow> error + Handle"
  os_GetStringValue :: "Handle \<Rightarrow> string \<Rightarrow> error + string"
  os_GetIntegerValue :: "Handle \<Rightarrow> string \<Rightarrow> error + 64 word"
  os_StringToSid :: "string \<Rightarrow> error + nat"
  os_LookupAccount :: "nat \<Rightarrow> string \<Rightarrow> error + (string \<times> string \<times> 32 word)"
  os_ImpersonateSelf :: "32 word \<Rightarrow> error option"
  os_RevertToSelf :: "error option"
  os_OpenThreadToken :: "32 word \<Rightarrow> bool \<Rightarrow> error + Handle"
  os_UTF16PtrFromString :: "string \<Rightarrow> error + 16 word list"
  os_LookupPrivilegeValue :: "16 word list \<Rightarrow> error + LUID"
  os_AdjustTokenPrivileges :: "Handle \<Rightarrow> bool \<Rightarrow> Tokenprivileges \<Rightarrow> error option"
  os_OpenProcess :: "32 word \<Rightarrow> bool \<Rightarrow> 32 word \<Rightarrow> error + Handle"
  os_OpenProcessToken :: "Handle \<Rightarrow> 32 word \<Rightarrow> error + Handle"
  os_Environ :: "Handle \<Rightarrow> bool \<Rightarrow> error + string list"
  os_CloseHandle :: "Handle \<Rightarrow> error option"
  os_Start :: "string \<Rightarrow> string list \<Rightarrow> Handle \<Rightarrow> error option"

datatype event =
    EvLockOSThread
  | EvUnlockOSThread
  | EvGetShellWindow Handle
  | EvGetWindowThreadProcessId Handle "32 word"
  | EvOpenKey string "error + Handle"
  | EvGetStringValue Handle string "error + string"
  | EvGetIntegerValue Handle string "error + 64 word"
  | EvKeyClose Handle
  | EvLog string
  | EvImpersonateSelf "32 word" "error option"
  | EvRevertToSelf "error option"
  | EvOpenThreadToken "32 word" bool "error + Handle"
  | EvLookupPrivilegeValue "16 word list" "error + LUID"
  | EvAdjustTokenPrivileges Handle bool Tokenprivileges "error option"
  | EvOpenProcess "32 word" bool "32 word" "error + Handle"
  | EvOpenProcessToken Handle "32 word" "error + Handle"
  | EvEnviron Handle bool "error + string list"
  | EvCloseHandle Handle "error option"
  | EvStart string "string list" Handle "error option"

type_synonym world = "event list"

subsection \<open>Constants\<close>

text \<open>The path separator of the two registry paths is the backslash, \<open>CHR 0x5C\<close>.\<close>

definition regBase :: string where
  "regBase = ''SOFTWARE'' @ [CHR 0x5C] @ ''Tailscale IPN''"

definition regPolicyBase :: string where
  "regPolicyBase = ''SOFTWARE'' @ [CHR 0x5C] @ ''Policies'' @ [CHR 0x5C] @ ''Tailscale''"

text \<open>Constants of \<open>syscall\<close>, \<open>registry\<close> and \<open>golang.org/x/sys/windows\<close>, with the
  values of the Windows SDK.\<close>

definition ErrNotExist :: error where  \<comment> \<open>\<open>registry.ErrNotExist = syscall.ERROR_FILE_NOT_FOUND\<close>\<close>
  "ErrNotExist = Errno 2"

definition SidTypeUser :: "32 word" where "SidTypeUser = 1"
definition SidTypeGroup :: "32 word" where "SidTypeGroup = 2"
definition SidTypeDomain :: "32 word" where "SidTypeDomain = 3"
definition SidTypeAlias :: "32 word" where "SidTypeAlias = 4"
definition SidTypeWellKnownGroup :: "32 word" where "SidTypeWellKnownGroup = 5"
definition SidTypeDeletedAccount :: "32 word" where "SidTypeDeletedAccount = 6"
definition SidTypeInvalid :: "32 word" where "SidTypeInvalid = 7"
definition SidTypeUnknown :: "32 word" where "SidTypeUnknown = 8"
definition SidTypeComputer :: "32 word" where "SidTypeComputer = 9"
definition SidTypeLabel :: "32 word" where "SidTypeLabel = 10"

definition SecurityImpersonation :: "32 word" where "SecurityImpersonation = 2"
definition TOKEN_QUERY :: "32 word" where "TOKEN_QUERY = 0x0008"
definition TOKEN_ADJUST_PRIVILEGES :: "32 word" where "TOKEN_ADJUST_PRIVILEGES = 0x0020"
definition SE_PRIVILEGE_ENABLED :: "32 word" where "SE_PRIVILEGE_ENABLED = 0x00000002"
definition PROCESS_CREATE_PROCESS :: "32 word" where "PROCESS_CREATE_PROCESS = 0x0080"
definition PROCESS_QUERY_INFORMATION :: "32 word" where "PROCESS_QUERY_INFORMATION = 0x0400"
definition PROCESS_DUP_HANDLE :: "32 word" where "PROCESS_DUP_HANDLE = 0x0040"

subsection \<open>Error texts and formatting\<close>

text \<open>\<open>%v\<close> of an unsigned integer: its decimal digits.\<close>

definition digit :: "nat \<Rightarrow> char" where
  "digit d = ''0123456789'' ! d"

fun decimal :: "nat \<Rightarrow> string" where
  "decimal n =
     (if n < 10 then [digit n]
      else decimal (n div 10) @ [digit (n mod 10)])"

declare decimal.simps [simp del]

text \<open>The method \<open>Error()\<close>, which \<open>%v\<close> prints for an error value.\<close>

fun Error :: "platform \<Rightarrow> error \<Rightarrow> string" where
  "Error p ErrNoShell = ''no Shell process is present''"
| "Error p (Errno n) = errno_text p n"
| "Error p (ErrorString s) = s"

subsection \<open>GetDesktopPID\<close>

definition GetDesktopPID :: "platform \<Rightarrow> world \<Rightarrow> (error + 32 word) \<times> world" where
  "GetDesktopPID p w =
     (let hwnd = os_GetShellWindow p;
          w1 = w @ [EvGetShellWindow hwnd]
      in if hwnd = 0 then (Inl ErrNoShell, w1)
         else
           let pid = os_GetWindowThreadProcessId p hwnd;
               w2 = w1 @ [EvGetWindowThreadProcessId hwnd pid]
           in if pid = 0
              then (Inl (ErrorString (''invalid PID for HWND '' @ decimal hwnd)), w2)
              else (Inr pid, w2))"

subsection \<open>Registry lookups\<close>

definition getRegStringInternal ::
  "platform \<Rightarrow> string \<Rightarrow> string \<Rightarrow> world \<Rightarrow> (error + string) \<times> world" where
  "getRegStringInternal p subKey name w =
     (case os_OpenKey p subKey of
        Inl err \<Rightarrow>
          (Inl err,
           w @ [EvOpenKey subKey (Inl err),
                EvLog (''registry.OpenKey('' @ subKey @ ''): '' @ Error p err)])
      | Inr key \<Rightarrow>
          (let w1 = w @ [EvOpenKey subKey (Inr key)]
           in case os_GetStringValue p key name of
                Inl err \<Rightarrow>
                  (Inl err,
                   w1 @ [EvGetStringValue key name (Inl err)]
                      @ (if err \<noteq> ErrNotExist
                         then [EvLog (''registry.GetStringValue('' @ name @ ''): '' @ Error p err)]
                         else [])
                      @ [EvKeyClose key])
              | Inr val \<Rightarrow>
                  (Inr val, w1 @ [EvGetStringValue key name (Inr val), EvKeyClose key])))"

definition getRegIntegerInternal ::
  "platform \<Rightarrow> string \<Rightarrow> string \<Rightarrow> world \<Rightarrow> (error + 64 word) \<times> world" where
  "getRegIntegerInternal p subKey name w =
     (case os_OpenKey p subKey of
        Inl err \<Rightarrow>
          (Inl err,
           w @ [EvOpenKey subKey (Inl err),
                EvLog (''registry.OpenKey('' @ subKey @ ''): '' @ Error p err)])
      | Inr key \<Rightarrow>
          (let w1 = w @ [EvOpenKey subKey (Inr key)]
           in case os_GetIntegerValue p key name of
                Inl err \<Rightarrow>
                  (Inl err,
                   w1 @ [EvGetIntegerValue key name (Inl err)]
                      @ (if err \<noteq> ErrNotExist
                         then [EvLog (''registry.GetIntegerValue('' @ name @ ''): '' @ Error p err)]
                         else [])
                      @ [EvKeyClose key])
              | Inr val \<Rightarrow>
                  (Inr val, w1 @ [EvGetIntegerValue key name (Inr val), EvKeyClose key])))"

definition getRegString :: "platform \<Rightarrow> string \<Rightarrow> string \<Rightarrow> world \<Rightarrow> string \<times> world" where
  "getRegString p name defval w =
     (case getRegStringInternal p regBase name w of
        (Inl err, w1) \<Rightarrow> (defval, w1)
      | (Inr s, w1) \<Rightarrow> (s, w1))"

definition getRegInteger :: "platform \<Rightarrow> string \<Rightarrow> 64 word \<Rightarrow> world \<Rightarrow> 64 word \<times> world" where
  "getRegInteger p name defval w =
     (case getRegIntegerInternal p regBase name w of
        (Inl err, w1) \<Rightarrow> (defval, w1)
      | (Inr i, w1) \<Rightarrow> (i, w1))"

definition getPolicyString :: "platform \<Rightarrow> string \<Rightarrow> string \<Rightarrow> world \<Rightarrow> string \<times> world" where
  "getPolicyString p name defval w =
     (case getRegStringInternal p regPolicyBase name w of
        (Inl err, w1) \<Rightarrow> getRegString p name defval w1
      | (Inr s, w1) \<Rightarrow> (s, w1))"

definition getPolicyInteger :: "platform \<Rightarrow> string \<Rightarrow> 64 word \<Rightarrow> world \<Rightarrow> 64 word \<times> world" where
  "getPolicyInteger p name defval w =
     (case getRegIntegerInternal p regPolicyBase name w of
        (Inl err, w1) \<Rightarrow> getRegInteger p name defval w1
      | (Inr i, w1) \<Rightarrow> (i, w1))"

subsection \<open>isSIDValidPrincipal\<close>

definition isSIDValidPrincipal :: "platform \<Rightarrow> string \<Rightarrow> bool" where
  "isSIDValidPrincipal p uid =
     (case os_StringToSid p uid of
        Inl err \<Rightarrow> False
      | Inr usid \<Rightarrow>
          (case os_LookupAccount p usid '''' of
             Inl err \<Rightarrow> False
           | Inr (account, domain, accType) \<Rightarrow>
               (if accType = SidTypeUser \<or> accType = SidTypeGroup \<or> accType = SidTypeDomain
                   \<or> accType = SidTypeAlias \<or> accType = SidTypeWellKnownGroup
                   \<or> accType = SidTypeComputer
                then True
                else False)))"

subsection \<open>EnableCurrentThreadPrivilege\<close>

text \<open>
  The body after \<open>defer t.Close()\<close>: whatever it returns, the caller below closes \<open>t\<close>
  afterwards. \<open>tp.Privileges[0]\<close> is element 0 of a one-element array.
\<close>

definition EnableCurrentThreadPrivilege_opened ::
  "platform \<Rightarrow> string \<Rightarrow> Handle \<Rightarrow> world \<Rightarrow> error option \<times> world" where
  "EnableCurrentThreadPrivilege_opened p name t w =
     (let tp = zero_Tokenprivileges
      in case os_UTF16PtrFromString p name of
           Inl err \<Rightarrow> (Some err, w)
         | Inr privStr \<Rightarrow>
             (let r = os_LookupPrivilegeValue p privStr;
                  w1 = w @ [EvLookupPrivilegeValue privStr r]
              in case r of
                   Inl err \<Rightarrow> (Some err, w1)
                 | Inr luid \<Rightarrow>
                     (let tp1 = tp\<lparr>Privileges :=
                                   (Privileges tp)[0 := (Privileges tp ! 0)\<lparr>Luid := luid\<rparr>]\<rparr>;
                          tp2 = tp1\<lparr>PrivilegeCount := 1\<rparr>;
                          tp3 = tp2\<lparr>Privileges :=
                                   (Privileges tp2)[0 := (Privileges tp2 ! 0)
                                      \<lparr>Attributes := SE_PRIVILEGE_ENABLED\<rparr>]\<rparr>;
                          r' = os_AdjustTokenPrivileges p t False tp3
                      in (r', w1 @ [EvAdjustTokenPrivileges t False tp3 r']))))"

definition EnableCurrentThreadPrivilege ::
  "platform \<Rightarrow> string \<Rightarrow> world \<Rightarrow> error option \<times> world" where
  "EnableCurrentThreadPrivilege p name w =
     (let r = os_OpenThreadToken p (TOKEN_QUERY OR TOKEN_ADJUST_PRIVILEGES) False;
          w1 = w @ [EvOpenThreadToken (TOKEN_QUERY OR TOKEN_ADJUST_PRIVILEGES) False r]
      in case r of
           Inl err \<Rightarrow> (Some err, w1)
         | Inr t \<Rightarrow>
             (case EnableCurrentThreadPrivilege_opened p name t w1 of
                (res, w2) \<Rightarrow> (res, w2 @ [EvCloseHandle t (os_CloseHandle p t)])))"

subsection \<open>StartProcessAsChild\<close>

text \<open>
  One definition per \<open>defer\<close>: each is the rest of the function body after the deferred
  call was registered, and the definition that calls it runs the deferred call on the
  way out, so the deferred calls run in reverse order of registration.
\<close>

definition StartProcessAsChild_token ::
  "platform \<Rightarrow> string \<Rightarrow> string list \<Rightarrow> Handle \<Rightarrow> Handle \<Rightarrow> world \<Rightarrow> error option \<times> world" where
  "StartProcessAsChild_token p exePath extraEnv ph pt w =
     (let r = os_Environ p pt False;
          w1 = w @ [EvEnviron pt False r]
      in case r of
           Inl err \<Rightarrow> (Some err, w1)
         | Inr env0 \<Rightarrow>
             (let env = env0 @ extraEnv;
                  r' = os_Start p exePath env ph
              in (r', w1 @ [EvStart exePath env ph r'])))"

definition StartProcessAsChild_process ::
  "platform \<Rightarrow> string \<Rightarrow> string list \<Rightarrow> Handle \<Rightarrow> world \<Rightarrow> error option \<times> world" where
  "StartProcessAsChild_process p exePath extraEnv ph w =
     (let r = os_OpenProcessToken p ph TOKEN_QUERY;
          w1 = w @ [EvOpenProcessToken ph TOKEN_QUERY r]
      in case r of
           Inl err \<Rightarrow> (Some err, w1)
         | Inr pt \<Rightarrow>
             (case StartProcessAsChild_token p exePath extraEnv ph pt w1 of
                (res, w2) \<Rightarrow> (res, w2 @ [EvCloseHandle pt (os_CloseHandle p pt)])))"

definition StartProcessAsChild_impersonating ::
  "platform \<Rightarrow> 32 word \<Rightarrow> string \<Rightarrow> string list \<Rightarrow> world \<Rightarrow> error option \<times> world" where
  "StartProcessAsChild_impersonating p parentPID exePath extraEnv w =
     (case EnableCurrentThreadPrivilege p ''SeDebugPrivilege'' w of
        (Some err, w1) \<Rightarrow> (Some err, w1)
      | (None, w1) \<Rightarrow>
          (let r = os_OpenProcess p
                     (PROCESS_CREATE_PROCESS OR PROCESS_QUERY_INFORMATION OR PROCESS_DUP_HANDLE)
                     False parentPID;
               w2 = w1 @ [EvOpenProcess
                     (PROCESS_CREATE_PROCESS OR PROCESS_QUERY_INFORMATION OR PROCESS_DUP_HANDLE)
                     False parentPID r]
           in case r of
                Inl err \<Rightarrow> (Some err, w2)
              | Inr ph \<Rightarrow>
                  (case StartProcessAsChild_process p exePath extraEnv ph w2 of
                     (res, w3) \<Rightarrow> (res, w3 @ [EvCloseHandle ph (os_CloseHandle p ph)]))))"

definition StartProcessAsChild_locked ::
  "platform \<Rightarrow> 32 word \<Rightarrow> string \<Rightarrow> string list \<Rightarrow> world \<Rightarrow> error option \<times> world" where
  "StartProcessAsChild_locked p parentPID exePath extraEnv w =
     (let r = os_ImpersonateSelf p SecurityImpersonation;
          w1 = w @ [EvImpersonateSelf SecurityImpersonation r]
      in case r of
           Some err \<Rightarrow> (Some err, w1)
         | None \<Rightarrow>
             (case StartProcessAsChild_impersonating p parentPID exePath extraEnv w1 of
                (res, w2) \<Rightarrow> (res, w2 @ [EvRevertToSelf (os_RevertToSelf p)])))"

definition StartProcessAsChild ::
  "platform \<Rightarrow> 32 word \<Rightarrow> string \<Rightarrow> string list \<Rightarrow> world \<Rightarrow> error option \<times> world" where
  "StartProcessAsChild p parentPID exePath extraEnv w =
     (case StartProcessAsChild_locked p parentPID exePath extraEnv (w @ [EvLockOSThread]) of
        (res, w1) \<Rightarrow> (res, w1 @ [EvUnlockOSThread]))"

subsection \<open>StartProcessAsCurrentGUIUser\<close>

definition StartProcessAsCurrentGUIUser ::
  "platform \<Rightarrow> string \<Rightarrow> string list \<Rightarrow> world \<Rightarrow> error option \<times> world" where
  "StartProcessAsCurrentGUIUser p exePath extraEnv w =
     (case GetDesktopPID p w of
        (Inl err, w1) \<Rightarrow>
          (Some (ErrorString (''failed to find desktop: '' @ Error p err)), w1)
      | (Inr desktop, w1) \<Rightarrow>
          (case StartProcessAsChild p desktop exePath extraEnv w1 of
             (Some err, w2) \<Rightarrow>
               (Some (ErrorString (''failed to start executable: '' @ Error p err)), w2)
           | (None, w2) \<Rightarrow> (None, w2)))"

section \<open>Reading the call log\<close>

text \<open>The calls a function adds to the log it was given.\<close>

definition new_calls :: "world \<Rightarrow> world \<Rightarrow> event list" where
  "new_calls w w' = drop (length w) w'"

subsection \<open>Kinds of call\<close>

definition is_OpenProcess :: "event \<Rightarrow> bool" where
  "is_OpenProcess ev = (case ev of EvOpenProcess a i pid r \<Rightarrow> True | _ \<Rightarrow> False)"

definition is_Environ_or_Start :: "event \<Rightarrow> bool" where
  "is_Environ_or_Start ev =
     (case ev of EvEnviron t i r \<Rightarrow> True | EvStart x env ph r \<Rightarrow> True | _ \<Rightarrow> False)"

definition is_spawner_call :: "event \<Rightarrow> bool" where
  "is_spawner_call ev =
     (case ev of
        EvGetShellWindow h \<Rightarrow> False
      | EvGetWindowThreadProcessId h pid \<Rightarrow> False
      | _ \<Rightarrow> True)"

definition is_impersonation_call :: "event \<Rightarrow> bool" where
  "is_impersonation_call ev =
     (case ev of EvImpersonateSelf l r \<Rightarrow> True | EvRevertToSelf r \<Rightarrow> True | _ \<Rightarrow> False)"

definition is_lock_call :: "event \<Rightarrow> bool" where
  "is_lock_call ev = (case ev of EvLockOSThread \<Rightarrow> True | EvUnlockOSThread \<Rightarrow> True | _ \<Rightarrow> False)"

definition opens_key :: "string \<Rightarrow> event \<Rightarrow> bool" where
  "opens_key subKey ev = (case ev of EvOpenKey k r \<Rightarrow> k = subKey | _ \<Rightarrow> False)"

subsection \<open>Handles opened and closed\<close>

text \<open>
  The handle a call hands out (a thread token, a process handle or a process token), and
  the handle a call gives back. \<open>CloseHandle\<close> counts as the release whatever it returns:
  the package ignores its result.
\<close>

definition opens :: "event \<Rightarrow> Handle option" where
  "opens ev =
     (case ev of
        EvOpenThreadToken a i r \<Rightarrow> (case r of Inr h \<Rightarrow> Some h | Inl err \<Rightarrow> None)
      | EvOpenProcess a i pid r \<Rightarrow> (case r of Inr h \<Rightarrow> Some h | Inl err \<Rightarrow> None)
      | EvOpenProcessToken ph a r \<Rightarrow> (case r of Inr h \<Rightarrow> Some h | Inl err \<Rightarrow> None)
      | _ \<Rightarrow> None)"

definition closes :: "event \<Rightarrow> Handle option" where
  "closes ev = (case ev of EvCloseHandle h r \<Rightarrow> Some h | _ \<Rightarrow> None)"

text \<open>
  Replaying a log against the list of handles that are open: an open adds its handle, a
  close takes one occurrence of its handle away, and closing a handle that is not open
  (a double close, or a close of a handle never opened) is \<open>None\<close>.
\<close>

fun handles_after :: "Handle list \<Rightarrow> event list \<Rightarrow> Handle list option" where
  "handles_after hs [] = Some hs"
| "handles_after hs (ev # evs) =
     (case closes ev of
        Some h \<Rightarrow> (if h \<in> set hs then handles_after (remove1 h hs) evs else None)
      | None \<Rightarrow>
          (case opens ev of
             Some h \<Rightarrow> handles_after (h # hs) evs
           | None \<Rightarrow> handles_after hs evs))"

subsection \<open>Privilege elevation inside the impersonation scope\<close>

text \<open>
  Replaying a log with two pieces of state: whether the thread is inside an impersonation
  scope (from a successful \<open>ImpersonateSelf\<close> up to the next \<open>RevertToSelf\<close>), and the
  open handles that came from \<open>OpenThreadToken\<close>. The check holds when every call of the
  privilege elevator is made inside the scope and \<open>AdjustTokenPrivileges\<close> is only ever
  applied to an open thread-token handle.
\<close>

fun elevation_in_scope :: "bool \<Rightarrow> Handle list \<Rightarrow> event list \<Rightarrow> bool" where
  "elevation_in_scope imp ts [] = True"
| "elevation_in_scope imp ts (ev # evs) =
     (case ev of
        EvImpersonateSelf l r \<Rightarrow> elevation_in_scope (imp \<or> r = None) ts evs
      | EvRevertToSelf r \<Rightarrow> elevation_in_scope False ts evs
      | EvOpenThreadToken a i r \<Rightarrow>
          imp \<and> elevation_in_scope imp (case r of Inr h \<Rightarrow> h # ts | Inl err \<Rightarrow> ts) evs
      | EvLookupPrivilegeValue n r \<Rightarrow> imp \<and> elevation_in_scope imp ts evs
      | EvAdjustTokenPrivileges h d tp r \<Rightarrow>
          imp \<and> h \<in> set ts \<and> elevation_in_scope imp ts evs
      | EvCloseHandle h r \<Rightarrow> elevation_in_scope imp (remove1 h ts) evs
      | _ \<Rightarrow> elevation_in_scope imp ts evs)"

subsection \<open>Thread pinning\<close>

text \<open>
  \<open>runtime.LockOSThread\<close> calls nest: the goroutine stays wired to its thread until it
  has made as many \<open>UnlockOSThread\<close> calls. Replaying a log with the nesting depth, the
  check holds when every call other than the lock itself is made at a depth above zero.
\<close>

fun pinned_throughout :: "nat \<Rightarrow> event list \<Rightarrow> bool" where
  "pinned_throughout d [] = True"
| "pinned_throughout d (ev # evs) =
     (case ev of
        EvLockOSThread \<Rightarrow> pinned_throughout (Suc d) evs
      | EvUnlockOSThread \<Rightarrow> 0 < d \<and> pinned_throughout (d - 1) evs
      | _ \<Rightarrow> 0 < d \<and> pinned_throughout d evs)"

fun lock_depth :: "nat \<Rightarrow> event list \<Rightarrow> nat" where
  "lock_depth d [] = d"
| "lock_depth d (ev # evs) =
     (case ev of
        EvLockOSThread \<Rightarrow> lock_depth (Suc d) evs
      | EvUnlockOSThread \<Rightarrow> lock_depth (d - 1) evs
      | _ \<Rightarrow> lock_depth d evs)"

subsection \<open>The security context\<close>

text \<open>
  The package keeps no security state of its own: what the platform calls do to the
  tokens is the platform's business. To say what an unchanged process-level context
  means, the log is read against a small model of that state, after the platform
  documentation of the calls: the privileges enabled in the primary token of the
  process, the impersonation token of the thread (if it has one), and what each open
  handle designates. \<open>ImpersonateSelf\<close> gives the thread a copy of the primary token,
  \<open>RevertToSelf\<close> takes the thread's token away, and \<open>AdjustTokenPrivileges\<close> changes
  the token its handle designates: the thread's, or the primary token when the handle was
  opened on the process's own id. Only calls that succeed change anything.
\<close>

datatype object = ThreadToken | ProcessObject "32 word" | ProcessTokenOf "32 word"

record seccontext =
  self_pid :: "32 word"
  primary :: "LUID list"
  impersonation :: "LUID list option"
  objects :: "Handle \<Rightarrow> object option"

definition enabled_by :: "Tokenprivileges \<Rightarrow> LUID list" where
  "enabled_by tp =
     map Luid (filter (\<lambda>la. Attributes la AND SE_PRIVILEGE_ENABLED \<noteq> 0)
                 (take (unat (PrivilegeCount tp)) (Privileges tp)))"

definition adjust :: "bool \<Rightarrow> Tokenprivileges \<Rightarrow> LUID list \<Rightarrow> LUID list" where
  "adjust disableAll tp ps = (if disableAll then [] else ps @ enabled_by tp)"

definition context_step :: "seccontext \<Rightarrow> event \<Rightarrow> seccontext" where
  "context_step c ev =
     (case ev of
        EvImpersonateSelf l r \<Rightarrow>
          (case r of None \<Rightarrow> c\<lparr>impersonation := Some (primary c)\<rparr> | Some err \<Rightarrow> c)
      | EvRevertToSelf r \<Rightarrow>
          (case r of None \<Rightarrow> c\<lparr>impersonation := None\<rparr> | Some err \<Rightarrow> c)
      | EvOpenThreadToken a i r \<Rightarrow>
          (case r of
             Inr h \<Rightarrow> c\<lparr>objects := (objects c)(h \<mapsto> ThreadToken)\<rparr>
           | Inl err \<Rightarrow> c)
      | EvOpenProcess a i pid r \<Rightarrow>
          (case r of
             Inr h \<Rightarrow> c\<lparr>objects := (objects c)(h \<mapsto> ProcessObject pid)\<rparr>
           | Inl err \<Rightarrow> c)
      | EvOpenProcessToken ph a r \<Rightarrow>
          (case r of
             Inr h \<Rightarrow>
               (case objects c ph of
                  Some (ProcessObject pid) \<Rightarrow>
                    c\<lparr>objects := (objects c)(h \<mapsto> ProcessTokenOf pid)\<rparr>
                | _ \<Rightarrow> c\<lparr>objects := (objects c)(h := None)\<rparr>)
           | Inl err \<Rightarrow> c)
      | EvAdjustTokenPrivileges h d tp r \<Rightarrow>
          (case r of
             None \<Rightarrow>
               (case objects c h of
                  Some ThreadToken \<Rightarrow>
                    c\<lparr>impersonation := map_option (adjust d tp) (impersonation c)\<rparr>
                | Some (ProcessTokenOf pid) \<Rightarrow>
                    (if pid = self_pid c then c\<lparr>primary := adjust d tp (primary c)\<rparr> else c)
                | _ \<Rightarrow> c)
           | Some err \<Rightarrow> c)
      | EvCloseHandle h r \<Rightarrow>
          (case r of None \<Rightarrow> c\<lparr>objects := (objects c)(h := None)\<rparr> | Some err \<Rightarrow> c)
      | _ \<Rightarrow> c)"

definition context_after :: "seccontext \<Rightarrow> event list \<Rightarrow> seccontext" where
  "context_after c evs = foldl context_step c evs"

section \<open>Concrete platforms\<close>

text \<open>
  A machine on which everything succeeds: the shell window is \<open>65552\<close> and belongs to
  process \<open>4242\<close>, whose environment is \<open>A=1\<close>, \<open>B=2\<close>; the policy key is missing and the
  legacy key holds one string and one integer.
\<close>

definition machine :: platform where
  "machine =
     \<lparr>errno_text = (\<lambda>n. ''errno '' @ decimal n),
      os_GetShellWindow = 65552,
      os_GetWindowThreadProcessId = (\<lambda>h. if h = 65552 then 4242 else 0),
      os_OpenKey = (\<lambda>k. if k = regBase then Inr 7 else Inl (Errno 2)),
      os_GetStringValue = (\<lambda>k n. if n = ''LogTarget'' then Inr ''example'' else Inl (Errno 2)),
      os_GetIntegerValue = (\<lambda>k n. if n = ''FlushDNSOnSessionUnlock'' then Inr 1 else Inl (Errno 2)),
      os_StringToSid = (\<lambda>s. if s = ''S-1-5-18'' then Inr 18 else Inl (Errno 1337)),
      os_LookupAccount = (\<lambda>sid sys. Inr (''SYSTEM'', ''NT AUTHORITY'', SidTypeWellKnownGroup)),
      os_ImpersonateSelf = (\<lambda>l. None),
      os_RevertToSelf = None,
      os_OpenThreadToken = (\<lambda>a i. Inr 100),
      os_UTF16PtrFromString = (\<lambda>s. Inr (map (\<lambda>c. of_nat (of_char c)) s)),
      os_LookupPrivilegeValue = (\<lambda>s. Inr \<lparr>LowPart = 20, HighPart = 0\<rparr>),
      os_AdjustTokenPrivileges = (\<lambda>t d tp. None),
      os_OpenProcess = (\<lambda>a i pid. Inr 200),
      os_OpenProcessToken = (\<lambda>ph a. Inr 300),
      os_Environ = (\<lambda>t i. Inr [''A=1'', ''B=2'']),
      os_CloseHandle = (\<lambda>h. None),
      os_Start = (\<lambda>x env ph. None)\<rparr>"

text \<open>The same machine with one call failing.\<close>

definition no_shell :: platform where
  "no_shell = machine\<lparr>os_GetShellWindow := 0\<rparr>"

definition no_shell_pid :: platform where
  "no_shell_pid = machine\<lparr>os_GetWindowThreadProcessId := (\<lambda>h. 0)\<rparr>"

definition impersonate_fails :: platform where
  "impersonate_fails = machine\<lparr>os_ImpersonateSelf := (\<lambda>l. Some (Errno 1346))\<rparr>"

definition thread_token_fails :: platform where
  "thread_token_fails = machine\<lparr>os_OpenThreadToken := (\<lambda>a i. Inl (Errno 1008))\<rparr>"

definition name_fails :: platform where
  "name_fails = machine\<lparr>os_UTF16PtrFromString := (\<lambda>s. Inl (Errno 536870951))\<rparr>"

definition lookup_fails :: platform where
  "lookup_fails = machine\<lparr>os_LookupPrivilegeValue := (\<lambda>s. Inl (Errno 1313))\<rparr>"

definition adjust_fails :: platform where
  "adjust_fails = machine\<lparr>os_AdjustTokenPrivileges := (\<lambda>t d tp. Some (Errno 1300))\<rparr>"

definition open_process_fails :: platform where
  "open_process_fails = machine\<lparr>os_OpenProcess := (\<lambda>a i pid. Inl (Errno 5))\<rparr>"

definition process_token_fails :: platform where
  "process_token_fails = machine\<lparr>os_OpenProcessToken := (\<lambda>ph a. Inl (Errno 5))\<rparr>"

definition environ_fails :: platform where
  "environ_fails = machine\<lparr>os_Environ := (\<lambda>t i. Inl (Errno 8))\<rparr>"

definition start_fails :: platform where
  "start_fails = machine\<lparr>os_Start := (\<lambda>x env ph. Some (ErrorString ''file does not exist''))\<rparr>"

definition policy_set :: platform where
  "policy_set = machine\<lparr>os_OpenKey := (\<lambda>k. if k = regPolicyBase then Inr 9 else Inr 7),
     os_GetStringValue := (\<lambda>k n. if k = 9 then Inr ''policy'' else Inr ''legacy''),
     os_GetIntegerValue := (\<lambda>k n. if k = 9 then Inr 30 else Inr 20)\<rparr>"

definition nothing_set :: platform where
  "nothing_set = machine\<lparr>os_OpenKey := (\<lambda>k. Inl (Errno 5))\<rparr>"

text \<open>A security context to start from: no impersonation, no privilege enabled.\<close>

definition context0 :: seccontext where
  "context0 = \<lparr>self_pid = 77, primary = [], impersonation = None, objects = (\<lambda>h. None)\<rparr>"

section \<open>Properties\<close>

subsection \<open>Evaluating \<open>decimal\<close>\<close>

lemma decimal_small: "n < 10 \<Longrightarrow> decimal n = [digit n]"
  by (simp add: decimal.simps)

lemma decimal_big: "10 \<le> n \<Longrightarrow> decimal n = decimal (n div 10) @ [digit (n mod 10)]"
  by (subst decimal.simps) simp

lemma decimal_65552: "decimal 65552 = ''65552''"
  by (simp add: decimal_small decimal_big digit_def)

text \<open>Different numbers have different decimal texts.\<close>

lemma digit_inj: "a < 10 \<Longrightarrow> b < 10 \<Longrightarrow> digit a = digit b \<Longrightarrow> a = b"
proof -
  have ten: "n < 10 \<Longrightarrow> n \<in> {0, 1, 2, 3, 4, 5, 6, 7, 8, 9}" for n :: nat
    by auto
  assume "a < 10" "b < 10" "digit a = digit b"
  with ten [of a] ten [of b] show "a = b"
    by (auto simp: digit_def)
qed

lemma decimal_not_Nil: "decimal n \<noteq> []"
  by (subst decimal.simps) simp

lemma decimal_inj: "decimal m = decimal n \<Longrightarrow> m = n"
proof (induction m arbitrary: n rule: decimal.induct)
  case (1 m)
  show ?case
  proof (cases "m < 10")
    case True
    show ?thesis
    proof (cases "n < 10")
      case n: True
      with True "1.prems" show ?thesis
        by (simp add: decimal_small digit_inj)
    next
      case False
      with True "1.prems" show ?thesis
        by (simp add: decimal_small decimal_big decimal_not_Nil Cons_eq_append_conv)
    qed
  next
    case False
    show ?thesis
    proof (cases "n < 10")
      case True
      with False "1.prems" show ?thesis
        by (simp add: decimal_small decimal_big decimal_not_Nil append_eq_Cons_conv)
    next
      case n: False
      with False "1.prems" have eq: "decimal (m div 10) = decimal (n div 10)"
        and d: "digit (m mod 10) = digit (n mod 10)"
        by (simp_all add: decimal_big)
      from "1.IH" [OF False eq] have "m div 10 = n div 10" .
      moreover from d have "m mod 10 = n mod 10"
        by (simp add: digit_inj)
      ultimately show ?thesis
        by (metis div_mult_mod_eq)
    qed
  qed
qed

subsection \<open>The desktop session locator\<close>

text \<open>
  Claim C5. \<open>GetDesktopPID\<close> has three outcomes. With no shell window (handle zero) it
  fails with \<open>ErrNoShell\<close> and does not ask for a process id. With a window whose owning
  process id comes back zero it fails with an error whose text ends in the decimal value
  of the window handle, so that errors for different handles differ. Otherwise it returns
  that nonzero process id, and no error.
\<close>

theorem GetDesktopPID_outcomes:
  "(os_GetShellWindow p = 0 \<longrightarrow>
      GetDesktopPID p w = (Inl ErrNoShell, w @ [EvGetShellWindow 0]))
   \<and> (os_GetShellWindow p \<noteq> 0 \<and> os_GetWindowThreadProcessId p (os_GetShellWindow p) = 0 \<longrightarrow>
      GetDesktopPID p w =
        (Inl (ErrorString (''invalid PID for HWND '' @ decimal (os_GetShellWindow p))),
         w @ [EvGetShellWindow (os_GetShellWindow p),
              EvGetWindowThreadProcessId (os_GetShellWindow p) 0]))
   \<and> (os_GetShellWindow p \<noteq> 0 \<and> os_GetWindowThreadProcessId p (os_GetShellWindow p) \<noteq> 0 \<longrightarrow>
      GetDesktopPID p w =
        (Inr (os_GetWindowThreadProcessId p (os_GetShellWindow p)),
         w @ [EvGetShellWindow (os_GetShellWindow p),
              EvGetWindowThreadProcessId (os_GetShellWindow p)
                (os_GetWindowThreadProcessId p (os_GetShellWindow p))]))
   \<and> (ErrorString (''invalid PID for HWND '' @ decimal h)
         = ErrorString (''invalid PID for HWND '' @ decimal h') \<longrightarrow> h = h')"
  using decimal_inj [of h h'] by (simp add: GetDesktopPID_def Let_def)

theorem GetDesktopPID_outcomes_witness:
  "GetDesktopPID no_shell [] = (Inl ErrNoShell, [EvGetShellWindow 0])
   \<and> GetDesktopPID no_shell_pid [] =
       (Inl (ErrorString ''invalid PID for HWND 65552''),
        [EvGetShellWindow 65552, EvGetWindowThreadProcessId 65552 0])
   \<and> GetDesktopPID machine [] =
       (Inr 4242, [EvGetShellWindow 65552, EvGetWindowThreadProcessId 65552 4242])"
proof -
  have a: "os_GetShellWindow no_shell = 0"
    by (simp add: no_shell_def machine_def)
  have b: "os_GetShellWindow no_shell_pid \<noteq> 0
      \<and> os_GetWindowThreadProcessId no_shell_pid (os_GetShellWindow no_shell_pid) = 0"
    by (simp add: no_shell_pid_def machine_def)
  have c: "os_GetShellWindow machine \<noteq> 0
      \<and> os_GetWindowThreadProcessId machine (os_GetShellWindow machine) \<noteq> 0"
    by (simp add: machine_def)
  show ?thesis
    using a b c GetDesktopPID_outcomes [of no_shell "[]" 0 0]
      GetDesktopPID_outcomes [of no_shell_pid "[]" 0 0]
      GetDesktopPID_outcomes [of machine "[]" 0 0]
    by (simp add: no_shell_pid_def no_shell_def machine_def decimal_65552)
qed

subsection \<open>The security-identifier check\<close>

text \<open>
  Claim C10. \<open>isSIDValidPrincipal\<close> returns a boolean for every string and has no error
  result. It is true exactly when the string parses as a SID, the account lookup for that
  SID succeeds, and the account type is user, group, domain, alias, well-known group or
  computer. It is false when the parse fails, when the lookup fails, and when the type is
  deleted account, invalid, unknown or label.
\<close>

theorem isSIDValidPrincipal_iff:
  "(isSIDValidPrincipal p uid \<longleftrightarrow>
      (\<exists>usid account domain accType.
         os_StringToSid p uid = Inr usid
         \<and> os_LookupAccount p usid '''' = Inr (account, domain, accType)
         \<and> accType \<in> {SidTypeUser, SidTypeGroup, SidTypeDomain, SidTypeAlias,
                       SidTypeWellKnownGroup, SidTypeComputer}))
   \<and> (os_StringToSid p uid = Inl err \<longrightarrow> \<not> isSIDValidPrincipal p uid)
   \<and> (os_StringToSid p uid = Inr usid' \<and> os_LookupAccount p usid' '''' = Inl err' \<longrightarrow>
        \<not> isSIDValidPrincipal p uid)
   \<and> (os_StringToSid p uid = Inr usid'
        \<and> os_LookupAccount p usid' '''' = Inr (account', domain', accType')
        \<and> accType' \<in> {SidTypeDeletedAccount, SidTypeInvalid, SidTypeUnknown, SidTypeLabel} \<longrightarrow>
        \<not> isSIDValidPrincipal p uid)"
proof (intro conjI)
  show "isSIDValidPrincipal p uid \<longleftrightarrow>
      (\<exists>usid account domain accType.
         os_StringToSid p uid = Inr usid
         \<and> os_LookupAccount p usid '''' = Inr (account, domain, accType)
         \<and> accType \<in> {SidTypeUser, SidTypeGroup, SidTypeDomain, SidTypeAlias,
                       SidTypeWellKnownGroup, SidTypeComputer})"
    by (auto simp: isSIDValidPrincipal_def split: sum.splits prod.splits)
  show "os_StringToSid p uid = Inl err \<longrightarrow> \<not> isSIDValidPrincipal p uid"
    by (simp add: isSIDValidPrincipal_def)
  show "os_StringToSid p uid = Inr usid' \<and> os_LookupAccount p usid' '''' = Inl err' \<longrightarrow>
        \<not> isSIDValidPrincipal p uid"
    by (simp add: isSIDValidPrincipal_def)
  show "os_StringToSid p uid = Inr usid'
        \<and> os_LookupAccount p usid' '''' = Inr (account', domain', accType')
        \<and> accType' \<in> {SidTypeDeletedAccount, SidTypeInvalid, SidTypeUnknown, SidTypeLabel} \<longrightarrow>
        \<not> isSIDValidPrincipal p uid"
    by (auto simp: isSIDValidPrincipal_def SidTypeUser_def SidTypeGroup_def SidTypeDomain_def
        SidTypeAlias_def SidTypeWellKnownGroup_def SidTypeComputer_def
        SidTypeDeletedAccount_def SidTypeInvalid_def SidTypeUnknown_def SidTypeLabel_def)
qed

theorem isSIDValidPrincipal_iff_witness:
  "isSIDValidPrincipal machine ''S-1-5-18''
   \<and> \<not> isSIDValidPrincipal machine ''Administrator''
   \<and> \<not> isSIDValidPrincipal
         (machine\<lparr>os_LookupAccount := (\<lambda>sid sys. Inl (Errno 1332))\<rparr>) ''S-1-5-18''
   \<and> \<not> isSIDValidPrincipal
         (machine\<lparr>os_LookupAccount := (\<lambda>sid sys. Inr (''gone'', ''HOST'', SidTypeDeletedAccount))\<rparr>)
         ''S-1-5-18''"
proof -
  let ?nolookup = "machine\<lparr>os_LookupAccount := (\<lambda>sid sys. Inl (Errno 1332))\<rparr>"
  let ?deleted =
    "machine\<lparr>os_LookupAccount := (\<lambda>sid sys. Inr (''gone'', ''HOST'', SidTypeDeletedAccount))\<rparr>"
  have a: "os_StringToSid machine ''S-1-5-18'' = Inr 18
      \<and> os_LookupAccount machine 18 '''' = Inr (''SYSTEM'', ''NT AUTHORITY'', SidTypeWellKnownGroup)
      \<and> SidTypeWellKnownGroup \<in> {SidTypeUser, SidTypeGroup, SidTypeDomain, SidTypeAlias,
                       SidTypeWellKnownGroup, SidTypeComputer}"
    by (simp add: machine_def)
  have b: "os_StringToSid machine ''Administrator'' = Inl (Errno 1337)"
    by (simp add: machine_def)
  have c: "os_StringToSid ?nolookup ''S-1-5-18'' = Inr 18
      \<and> os_LookupAccount ?nolookup 18 '''' = Inl (Errno 1332)"
    by (simp add: machine_def)
  have d: "os_StringToSid ?deleted ''S-1-5-18'' = Inr 18
      \<and> os_LookupAccount ?deleted 18 '''' = Inr (''gone'', ''HOST'', SidTypeDeletedAccount)
      \<and> SidTypeDeletedAccount
          \<in> {SidTypeDeletedAccount, SidTypeInvalid, SidTypeUnknown, SidTypeLabel}"
    by (simp add: machine_def)
  from a have 1: "isSIDValidPrincipal machine ''S-1-5-18''"
    using isSIDValidPrincipal_iff [of machine "''S-1-5-18''"] by blast
  from b have 2: "\<not> isSIDValidPrincipal machine ''Administrator''"
    using isSIDValidPrincipal_iff [of machine "''Administrator''" "Errno 1337"] by blast
  from c have 3: "\<not> isSIDValidPrincipal ?nolookup ''S-1-5-18''"
    using isSIDValidPrincipal_iff [of ?nolookup "''S-1-5-18''" _ 18 "Errno 1332"] by blast
  from d have 4: "\<not> isSIDValidPrincipal ?deleted ''S-1-5-18''"
    using isSIDValidPrincipal_iff
      [of ?deleted "''S-1-5-18''" _ 18 _ "''gone''" "''HOST''" SidTypeDeletedAccount]
    by blast
  from 1 2 3 4 show ?thesis by blast
qed

subsection \<open>The log only grows\<close>

text \<open>
  Every function appends to the log it is given, and what it appends and returns does not
  depend on that log. The lemmas are stated for a nonempty log so that they can be used
  as rewrite rules without touching the calls on the empty log on their right-hand sides.
\<close>

lemma EnableCurrentThreadPrivilege_opened_log:
  "w \<noteq> [] \<Longrightarrow> EnableCurrentThreadPrivilege_opened p n t w =
     (fst (EnableCurrentThreadPrivilege_opened p n t []),
      w @ snd (EnableCurrentThreadPrivilege_opened p n t []))"
  by (simp add: EnableCurrentThreadPrivilege_opened_def Let_def split: sum.splits)

lemma EnableCurrentThreadPrivilege_log:
  "w \<noteq> [] \<Longrightarrow> EnableCurrentThreadPrivilege p n w =
     (fst (EnableCurrentThreadPrivilege p n []), w @ snd (EnableCurrentThreadPrivilege p n []))"
  by (simp add: EnableCurrentThreadPrivilege_def Let_def EnableCurrentThreadPrivilege_opened_log
      split: sum.splits)

lemma StartProcessAsChild_token_log:
  "w \<noteq> [] \<Longrightarrow> StartProcessAsChild_token p x e ph pt w =
     (fst (StartProcessAsChild_token p x e ph pt []),
      w @ snd (StartProcessAsChild_token p x e ph pt []))"
  by (simp add: StartProcessAsChild_token_def Let_def split: sum.splits)

lemma StartProcessAsChild_process_log:
  "w \<noteq> [] \<Longrightarrow> StartProcessAsChild_process p x e ph w =
     (fst (StartProcessAsChild_process p x e ph []),
      w @ snd (StartProcessAsChild_process p x e ph []))"
  by (simp add: StartProcessAsChild_process_def Let_def StartProcessAsChild_token_log
      split: sum.splits)

lemma StartProcessAsChild_impersonating_log:
  "w \<noteq> [] \<Longrightarrow> StartProcessAsChild_impersonating p pid x e w =
     (fst (StartProcessAsChild_impersonating p pid x e []),
      w @ snd (StartProcessAsChild_impersonating p pid x e []))"
  by (simp add: StartProcessAsChild_impersonating_def Let_def EnableCurrentThreadPrivilege_log
      StartProcessAsChild_process_log split: sum.splits option.splits prod.splits)

lemma StartProcessAsChild_locked_log:
  "w \<noteq> [] \<Longrightarrow> StartProcessAsChild_locked p pid x e w =
     (fst (StartProcessAsChild_locked p pid x e []),
      w @ snd (StartProcessAsChild_locked p pid x e []))"
  by (simp add: StartProcessAsChild_locked_def Let_def StartProcessAsChild_impersonating_log
      split: sum.splits option.splits prod.splits)

lemma StartProcessAsChild_log:
  "w \<noteq> [] \<Longrightarrow> StartProcessAsChild p pid x e w =
     (fst (StartProcessAsChild p pid x e []), w @ snd (StartProcessAsChild p pid x e []))"
  by (simp add: StartProcessAsChild_def Let_def StartProcessAsChild_locked_log
      split: sum.splits option.splits prod.splits)

lemma new_calls_append [simp]: "new_calls w (w @ evs) = evs"
  by (simp add: new_calls_def)

lemma new_calls_EnableCurrentThreadPrivilege:
  "new_calls w (snd (EnableCurrentThreadPrivilege p n w)) =
     snd (EnableCurrentThreadPrivilege p n [])"
  by (cases "w = []") (simp_all add: new_calls_def EnableCurrentThreadPrivilege_log)

lemma fst_EnableCurrentThreadPrivilege:
  "fst (EnableCurrentThreadPrivilege p n w) = fst (EnableCurrentThreadPrivilege p n [])"
  by (cases "w = []") (simp_all add: EnableCurrentThreadPrivilege_log)

lemma new_calls_StartProcessAsChild:
  "new_calls w (snd (StartProcessAsChild p pid x e w)) = snd (StartProcessAsChild p pid x e [])"
  by (cases "w = []") (simp_all add: new_calls_def StartProcessAsChild_log)

lemma fst_StartProcessAsChild:
  "fst (StartProcessAsChild p pid x e w) = fst (StartProcessAsChild p pid x e [])"
  by (cases "w = []") (simp_all add: StartProcessAsChild_log)

text \<open>The spawner on the empty log, one level of \<open>defer\<close> at a time.\<close>

lemma StartProcessAsChild_unfold:
  "StartProcessAsChild p pid x e [] =
     (case os_ImpersonateSelf p SecurityImpersonation of
        Some err \<Rightarrow>
          (Some err,
           [EvLockOSThread, EvImpersonateSelf SecurityImpersonation (Some err),
            EvUnlockOSThread])
      | None \<Rightarrow>
          (fst (StartProcessAsChild_impersonating p pid x e []),
           [EvLockOSThread, EvImpersonateSelf SecurityImpersonation None]
           @ snd (StartProcessAsChild_impersonating p pid x e [])
           @ [EvRevertToSelf (os_RevertToSelf p), EvUnlockOSThread]))"
  by (simp add: StartProcessAsChild_def StartProcessAsChild_locked_def Let_def
      StartProcessAsChild_impersonating_log split: option.splits prod.splits)

lemma StartProcessAsChild_impersonating_unfold:
  "StartProcessAsChild_impersonating p pid x e [] =
     (case fst (EnableCurrentThreadPrivilege p ''SeDebugPrivilege'' []) of
        Some err \<Rightarrow> (Some err, snd (EnableCurrentThreadPrivilege p ''SeDebugPrivilege'' []))
      | None \<Rightarrow>
          (case os_OpenProcess p
                  (PROCESS_CREATE_PROCESS OR PROCESS_QUERY_INFORMATION OR PROCESS_DUP_HANDLE)
                  False pid of
             Inl err \<Rightarrow>
               (Some err,
                snd (EnableCurrentThreadPrivilege p ''SeDebugPrivilege'' [])
                @ [EvOpenProcess
                     (PROCESS_CREATE_PROCESS OR PROCESS_QUERY_INFORMATION OR PROCESS_DUP_HANDLE)
                     False pid (Inl err)])
           | Inr ph \<Rightarrow>
               (fst (StartProcessAsChild_process p x e ph []),
                snd (EnableCurrentThreadPrivilege p ''SeDebugPrivilege'' [])
                @ [EvOpenProcess
                     (PROCESS_CREATE_PROCESS OR PROCESS_QUERY_INFORMATION OR PROCESS_DUP_HANDLE)
                     False pid (Inr ph)]
                @ snd (StartProcessAsChild_process p x e ph [])
                @ [EvCloseHandle ph (os_CloseHandle p ph)])))"
  by (cases "EnableCurrentThreadPrivilege p ''SeDebugPrivilege'' []")
     (simp add: StartProcessAsChild_impersonating_def Let_def StartProcessAsChild_process_log
      split: option.splits sum.splits prod.splits)

lemma StartProcessAsChild_process_unfold:
  "StartProcessAsChild_process p x e ph [] =
     (case os_OpenProcessToken p ph TOKEN_QUERY of
        Inl err \<Rightarrow> (Some err, [EvOpenProcessToken ph TOKEN_QUERY (Inl err)])
      | Inr pt \<Rightarrow>
          (case os_Environ p pt False of
             Inl err \<Rightarrow>
               (Some err,
                [EvOpenProcessToken ph TOKEN_QUERY (Inr pt), EvEnviron pt False (Inl err),
                 EvCloseHandle pt (os_CloseHandle p pt)])
           | Inr env \<Rightarrow>
               (os_Start p x (env @ e) ph,
                [EvOpenProcessToken ph TOKEN_QUERY (Inr pt), EvEnviron pt False (Inr env),
                 EvStart x (env @ e) ph (os_Start p x (env @ e) ph),
                 EvCloseHandle pt (os_CloseHandle p pt)])))"
  by (simp add: StartProcessAsChild_process_def StartProcessAsChild_token_def Let_def
      split: sum.splits)

lemma EnableCurrentThreadPrivilege_unfold:
  "EnableCurrentThreadPrivilege p n [] =
     (case os_OpenThreadToken p (TOKEN_QUERY OR TOKEN_ADJUST_PRIVILEGES) False of
        Inl err \<Rightarrow>
          (Some err, [EvOpenThreadToken (TOKEN_QUERY OR TOKEN_ADJUST_PRIVILEGES) False (Inl err)])
      | Inr t \<Rightarrow>
          (case os_UTF16PtrFromString p n of
             Inl err \<Rightarrow>
               (Some err,
                [EvOpenThreadToken (TOKEN_QUERY OR TOKEN_ADJUST_PRIVILEGES) False (Inr t),
                 EvCloseHandle t (os_CloseHandle p t)])
           | Inr privStr \<Rightarrow>
               (case os_LookupPrivilegeValue p privStr of
                  Inl err \<Rightarrow>
                    (Some err,
                     [EvOpenThreadToken (TOKEN_QUERY OR TOKEN_ADJUST_PRIVILEGES) False (Inr t),
                      EvLookupPrivilegeValue privStr (Inl err),
                      EvCloseHandle t (os_CloseHandle p t)])
                | Inr luid \<Rightarrow>
                    (os_AdjustTokenPrivileges p t False
                       \<lparr>PrivilegeCount = 1,
                        Privileges = [\<lparr>Luid = luid, Attributes = SE_PRIVILEGE_ENABLED\<rparr>]\<rparr>,
                     [EvOpenThreadToken (TOKEN_QUERY OR TOKEN_ADJUST_PRIVILEGES) False (Inr t),
                      EvLookupPrivilegeValue privStr (Inr luid),
                      EvAdjustTokenPrivileges t False
                        \<lparr>PrivilegeCount = 1,
                         Privileges = [\<lparr>Luid = luid, Attributes = SE_PRIVILEGE_ENABLED\<rparr>]\<rparr>
                        (os_AdjustTokenPrivileges p t False
                           \<lparr>PrivilegeCount = 1,
                            Privileges = [\<lparr>Luid = luid, Attributes = SE_PRIVILEGE_ENABLED\<rparr>]\<rparr>),
                      EvCloseHandle t (os_CloseHandle p t)]))))"
  by (simp add: EnableCurrentThreadPrivilege_def EnableCurrentThreadPrivilege_opened_def Let_def
      zero_Tokenprivileges_def split: sum.splits)

subsection \<open>The privilege elevator\<close>

text \<open>
  Claim C7. \<open>EnableCurrentThreadPrivilege\<close>, for every privilege name, once the thread
  token is open: it converts the name and looks up its local identifier; it then builds a
  privilege set with count one whose single entry carries that identifier and the enabled
  attribute, and applies it to the thread token with \<open>AdjustTokenPrivileges\<close>, whose
  result is the result of the call. A failing name conversion or lookup ends the call
  with that error before anything is applied; a failing apply ends it with the apply
  error. These are different places in the call log. A thread token that cannot be
  opened ends the call with that error as well. The token is closed in every case.
\<close>

theorem EnableCurrentThreadPrivilege_steps:
  "(os_OpenThreadToken p (TOKEN_QUERY OR TOKEN_ADJUST_PRIVILEGES) False = Inl err0 \<longrightarrow>
      fst (EnableCurrentThreadPrivilege p name w) = Some err0
      \<and> new_calls w (snd (EnableCurrentThreadPrivilege p name w)) =
          [EvOpenThreadToken (TOKEN_QUERY OR TOKEN_ADJUST_PRIVILEGES) False (Inl err0)])
   \<and> (os_OpenThreadToken p (TOKEN_QUERY OR TOKEN_ADJUST_PRIVILEGES) False = Inr t
       \<and> os_UTF16PtrFromString p name = Inl err1 \<longrightarrow>
      fst (EnableCurrentThreadPrivilege p name w) = Some err1
      \<and> new_calls w (snd (EnableCurrentThreadPrivilege p name w)) =
          [EvOpenThreadToken (TOKEN_QUERY OR TOKEN_ADJUST_PRIVILEGES) False (Inr t),
           EvCloseHandle t (os_CloseHandle p t)])
   \<and> (os_OpenThreadToken p (TOKEN_QUERY OR TOKEN_ADJUST_PRIVILEGES) False = Inr t
       \<and> os_UTF16PtrFromString p name = Inr privStr
       \<and> os_LookupPrivilegeValue p privStr = Inl err2 \<longrightarrow>
      fst (EnableCurrentThreadPrivilege p name w) = Some err2
      \<and> new_calls w (snd (EnableCurrentThreadPrivilege p name w)) =
          [EvOpenThreadToken (TOKEN_QUERY OR TOKEN_ADJUST_PRIVILEGES) False (Inr t),
           EvLookupPrivilegeValue privStr (Inl err2),
           EvCloseHandle t (os_CloseHandle p t)])
   \<and> (os_OpenThreadToken p (TOKEN_QUERY OR TOKEN_ADJUST_PRIVILEGES) False = Inr t
       \<and> os_UTF16PtrFromString p name = Inr privStr
       \<and> os_LookupPrivilegeValue p privStr = Inr luid \<longrightarrow>
      (\<exists>tp. PrivilegeCount tp = 1
          \<and> Privileges tp = [\<lparr>Luid = luid, Attributes = SE_PRIVILEGE_ENABLED\<rparr>]
          \<and> enabled_by tp = [luid]
          \<and> fst (EnableCurrentThreadPrivilege p name w) = os_AdjustTokenPrivileges p t False tp
          \<and> new_calls w (snd (EnableCurrentThreadPrivilege p name w)) =
              [EvOpenThreadToken (TOKEN_QUERY OR TOKEN_ADJUST_PRIVILEGES) False (Inr t),
               EvLookupPrivilegeValue privStr (Inr luid),
               EvAdjustTokenPrivileges t False tp (os_AdjustTokenPrivileges p t False tp),
               EvCloseHandle t (os_CloseHandle p t)]))"
proof (intro conjI impI)
  assume "os_OpenThreadToken p (TOKEN_QUERY OR TOKEN_ADJUST_PRIVILEGES) False = Inl err0"
  then show "fst (EnableCurrentThreadPrivilege p name w) = Some err0"
    and "new_calls w (snd (EnableCurrentThreadPrivilege p name w)) =
          [EvOpenThreadToken (TOKEN_QUERY OR TOKEN_ADJUST_PRIVILEGES) False (Inl err0)]"
    by (simp_all add: fst_EnableCurrentThreadPrivilege new_calls_EnableCurrentThreadPrivilege
        EnableCurrentThreadPrivilege_unfold)
next
  assume "os_OpenThreadToken p (TOKEN_QUERY OR TOKEN_ADJUST_PRIVILEGES) False = Inr t
       \<and> os_UTF16PtrFromString p name = Inl err1"
  then show "fst (EnableCurrentThreadPrivilege p name w) = Some err1"
    and "new_calls w (snd (EnableCurrentThreadPrivilege p name w)) =
          [EvOpenThreadToken (TOKEN_QUERY OR TOKEN_ADJUST_PRIVILEGES) False (Inr t),
           EvCloseHandle t (os_CloseHandle p t)]"
    by (simp_all add: fst_EnableCurrentThreadPrivilege new_calls_EnableCurrentThreadPrivilege
        EnableCurrentThreadPrivilege_unfold)
next
  assume "os_OpenThreadToken p (TOKEN_QUERY OR TOKEN_ADJUST_PRIVILEGES) False = Inr t
       \<and> os_UTF16PtrFromString p name = Inr privStr
       \<and> os_LookupPrivilegeValue p privStr = Inl err2"
  then show "fst (EnableCurrentThreadPrivilege p name w) = Some err2"
    and "new_calls w (snd (EnableCurrentThreadPrivilege p name w)) =
          [EvOpenThreadToken (TOKEN_QUERY OR TOKEN_ADJUST_PRIVILEGES) False (Inr t),
           EvLookupPrivilegeValue privStr (Inl err2),
           EvCloseHandle t (os_CloseHandle p t)]"
    by (simp_all add: fst_EnableCurrentThreadPrivilege new_calls_EnableCurrentThreadPrivilege
        EnableCurrentThreadPrivilege_unfold)
next
  let ?tp = "\<lparr>PrivilegeCount = 1,
              Privileges = [\<lparr>Luid = luid, Attributes = SE_PRIVILEGE_ENABLED\<rparr>]\<rparr>"
  assume a: "os_OpenThreadToken p (TOKEN_QUERY OR TOKEN_ADJUST_PRIVILEGES) False = Inr t
       \<and> os_UTF16PtrFromString p name = Inr privStr
       \<and> os_LookupPrivilegeValue p privStr = Inr luid"
  have "enabled_by ?tp = [luid]"
    by (simp add: enabled_by_def SE_PRIVILEGE_ENABLED_def)
  moreover from a have
    "fst (EnableCurrentThreadPrivilege p name w) = os_AdjustTokenPrivileges p t False ?tp"
    by (simp add: fst_EnableCurrentThreadPrivilege EnableCurrentThreadPrivilege_unfold)
  moreover from a have "new_calls w (snd (EnableCurrentThreadPrivilege p name w)) =
      [EvOpenThreadToken (TOKEN_QUERY OR TOKEN_ADJUST_PRIVILEGES) False (Inr t),
       EvLookupPrivilegeValue privStr (Inr luid),
       EvAdjustTokenPrivileges t False ?tp (os_AdjustTokenPrivileges p t False ?tp),
       EvCloseHandle t (os_CloseHandle p t)]"
    by (simp add: new_calls_EnableCurrentThreadPrivilege EnableCurrentThreadPrivilege_unfold)
  ultimately show "\<exists>tp. PrivilegeCount tp = 1
          \<and> Privileges tp = [\<lparr>Luid = luid, Attributes = SE_PRIVILEGE_ENABLED\<rparr>]
          \<and> enabled_by tp = [luid]
          \<and> fst (EnableCurrentThreadPrivilege p name w) = os_AdjustTokenPrivileges p t False tp
          \<and> new_calls w (snd (EnableCurrentThreadPrivilege p name w)) =
              [EvOpenThreadToken (TOKEN_QUERY OR TOKEN_ADJUST_PRIVILEGES) False (Inr t),
               EvLookupPrivilegeValue privStr (Inr luid),
               EvAdjustTokenPrivileges t False tp (os_AdjustTokenPrivileges p t False tp),
               EvCloseHandle t (os_CloseHandle p t)]"
    by (intro exI [of _ ?tp]) simp
qed
theorem EnableCurrentThreadPrivilege_steps_witness:
  "fst (EnableCurrentThreadPrivilege thread_token_fails ''SeDebugPrivilege'' []) = Some (Errno 1008)
   \<and> fst (EnableCurrentThreadPrivilege name_fails ''SeDebugPrivilege'' []) = Some (Errno 536870951)
   \<and> snd (EnableCurrentThreadPrivilege name_fails ''SeDebugPrivilege'' []) =
       [EvOpenThreadToken (TOKEN_QUERY OR TOKEN_ADJUST_PRIVILEGES) False (Inr 100),
        EvCloseHandle 100 None]
   \<and> fst (EnableCurrentThreadPrivilege lookup_fails ''SeDebugPrivilege'' []) = Some (Errno 1313)
   \<and> fst (EnableCurrentThreadPrivilege adjust_fails ''SeDebugPrivilege'' []) = Some (Errno 1300)
   \<and> fst (EnableCurrentThreadPrivilege machine ''SeDebugPrivilege'' []) = None"
proof -
  let ?name = "map (\<lambda>c. of_nat (of_char c)) ''SeDebugPrivilege'' :: 16 word list"
  let ?luid = "\<lparr>LowPart = 20, HighPart = 0\<rparr>"
  have a: "os_OpenThreadToken thread_token_fails (TOKEN_QUERY OR TOKEN_ADJUST_PRIVILEGES) False
      = Inl (Errno 1008)"
    by (simp add: thread_token_fails_def machine_def)
  have b: "os_OpenThreadToken name_fails (TOKEN_QUERY OR TOKEN_ADJUST_PRIVILEGES) False = Inr 100
      \<and> os_UTF16PtrFromString name_fails ''SeDebugPrivilege'' = Inl (Errno 536870951)"
    by (simp add: name_fails_def machine_def)
  have c: "os_OpenThreadToken lookup_fails (TOKEN_QUERY OR TOKEN_ADJUST_PRIVILEGES) False = Inr 100
      \<and> os_UTF16PtrFromString lookup_fails ''SeDebugPrivilege'' = Inr ?name
      \<and> os_LookupPrivilegeValue lookup_fails ?name = Inl (Errno 1313)"
    by (simp add: lookup_fails_def machine_def)
  have d: "os_OpenThreadToken adjust_fails (TOKEN_QUERY OR TOKEN_ADJUST_PRIVILEGES) False = Inr 100
      \<and> os_UTF16PtrFromString adjust_fails ''SeDebugPrivilege'' = Inr ?name
      \<and> os_LookupPrivilegeValue adjust_fails ?name = Inr ?luid"
    by (simp add: adjust_fails_def machine_def)
  have e: "os_OpenThreadToken machine (TOKEN_QUERY OR TOKEN_ADJUST_PRIVILEGES) False = Inr 100
      \<and> os_UTF16PtrFromString machine ''SeDebugPrivilege'' = Inr ?name
      \<and> os_LookupPrivilegeValue machine ?name = Inr ?luid"
    by (simp add: machine_def)
  have da: "os_AdjustTokenPrivileges adjust_fails 100 False tp = Some (Errno 1300)" for tp
    by (simp add: adjust_fails_def machine_def)
  have ea: "os_AdjustTokenPrivileges machine 100 False tp = None" for tp
    by (simp add: machine_def)
  have bc: "os_CloseHandle name_fails 100 = None"
    by (simp add: name_fails_def machine_def)
  from a have 1:
    "fst (EnableCurrentThreadPrivilege thread_token_fails ''SeDebugPrivilege'' []) = Some (Errno 1008)"
    using EnableCurrentThreadPrivilege_steps
      [of thread_token_fails "Errno 1008" "''SeDebugPrivilege''" "[]"]
    by blast
  from b have 2:
    "fst (EnableCurrentThreadPrivilege name_fails ''SeDebugPrivilege'' []) = Some (Errno 536870951)
     \<and> new_calls [] (snd (EnableCurrentThreadPrivilege name_fails ''SeDebugPrivilege'' [])) =
       [EvOpenThreadToken (TOKEN_QUERY OR TOKEN_ADJUST_PRIVILEGES) False (Inr 100),
        EvCloseHandle 100 (os_CloseHandle name_fails 100)]"
    using EnableCurrentThreadPrivilege_steps
      [of name_fails _ "''SeDebugPrivilege''" "[]" 100 "Errno 536870951"]
    by blast
  from c have 3:
    "fst (EnableCurrentThreadPrivilege lookup_fails ''SeDebugPrivilege'' []) = Some (Errno 1313)"
    using EnableCurrentThreadPrivilege_steps
      [of lookup_fails _ "''SeDebugPrivilege''" "[]" 100 _ ?name "Errno 1313"]
    by blast
  from d obtain tp where
    "fst (EnableCurrentThreadPrivilege adjust_fails ''SeDebugPrivilege'' [])
       = os_AdjustTokenPrivileges adjust_fails 100 False tp"
    using EnableCurrentThreadPrivilege_steps
      [of adjust_fails _ "''SeDebugPrivilege''" "[]" 100 _ ?name _ ?luid]
    by blast
  with da have 4:
    "fst (EnableCurrentThreadPrivilege adjust_fails ''SeDebugPrivilege'' []) = Some (Errno 1300)"
    by simp
  from e obtain tp' where
    "fst (EnableCurrentThreadPrivilege machine ''SeDebugPrivilege'' [])
       = os_AdjustTokenPrivileges machine 100 False tp'"
    using EnableCurrentThreadPrivilege_steps
      [of machine _ "''SeDebugPrivilege''" "[]" 100 _ ?name _ ?luid]
    by blast
  with ea have 5: "fst (EnableCurrentThreadPrivilege machine ''SeDebugPrivilege'' []) = None"
    by simp
  from 1 2 3 4 5 bc show ?thesis
    by (simp add: new_calls_def)
qed

subsection \<open>The spawner: one step after another\<close>

lemma EnableCurrentThreadPrivilege_no_OpenProcess:
  "\<not> list_ex is_OpenProcess (snd (EnableCurrentThreadPrivilege p n []))"
  by (simp add: EnableCurrentThreadPrivilege_unfold is_OpenProcess_def split: sum.splits)

lemma elevation_in_scope_EnableCurrentThreadPrivilege:
  "elevation_in_scope True [] (snd (EnableCurrentThreadPrivilege p n []) @ evs)
     = elevation_in_scope True [] evs"
  by (simp add: EnableCurrentThreadPrivilege_unfold split: sum.splits)

text \<open>
  Claim C1. \<open>StartProcessAsChild\<close> runs its steps in one fixed order: impersonate,
  elevate, open the process, open its token, read its environment, start the command.
  The first step that fails ends the sequence: its error is the result, and the log holds
  the calls up to that step followed only by the deferred releases. In particular, when
  the elevation fails the log has no \<open>OpenProcess\<close> call. In every run, each call of the
  privilege elevator lies after a successful \<open>ImpersonateSelf\<close> and before
  \<open>RevertToSelf\<close>, and \<open>AdjustTokenPrivileges\<close> is applied only to the handle that
  \<open>OpenThreadToken\<close> returned, while that handle is open.
\<close>

theorem StartProcessAsChild_linear:
  fixes p :: platform and pid :: "32 word" and x :: string and e :: "string list" and w :: world
  defines "res \<equiv> fst (StartProcessAsChild p pid x e w)"
    and "calls \<equiv> new_calls w (snd (StartProcessAsChild p pid x e w))"
    and "elev \<equiv> EnableCurrentThreadPrivilege p ''SeDebugPrivilege'' []"
    and "rights \<equiv> PROCESS_CREATE_PROCESS OR PROCESS_QUERY_INFORMATION OR PROCESS_DUP_HANDLE"
  shows
    "(os_ImpersonateSelf p SecurityImpersonation = Some err \<longrightarrow>
        res = Some err
        \<and> calls = [EvLockOSThread, EvImpersonateSelf SecurityImpersonation (Some err),
                   EvUnlockOSThread])
     \<and> (os_ImpersonateSelf p SecurityImpersonation = None \<and> fst elev = Some err \<longrightarrow>
        res = Some err
        \<and> calls = [EvLockOSThread, EvImpersonateSelf SecurityImpersonation None] @ snd elev
                   @ [EvRevertToSelf (os_RevertToSelf p), EvUnlockOSThread]
        \<and> \<not> list_ex is_OpenProcess calls)
     \<and> (os_ImpersonateSelf p SecurityImpersonation = None \<and> fst elev = None
         \<and> os_OpenProcess p rights False pid = Inl err \<longrightarrow>
        res = Some err
        \<and> calls = [EvLockOSThread, EvImpersonateSelf SecurityImpersonation None] @ snd elev
                   @ [EvOpenProcess rights False pid (Inl err),
                      EvRevertToSelf (os_RevertToSelf p), EvUnlockOSThread])
     \<and> (os_ImpersonateSelf p SecurityImpersonation = None \<and> fst elev = None
         \<and> os_OpenProcess p rights False pid = Inr ph
         \<and> os_OpenProcessToken p ph TOKEN_QUERY = Inl err \<longrightarrow>
        res = Some err
        \<and> calls = [EvLockOSThread, EvImpersonateSelf SecurityImpersonation None] @ snd elev
                   @ [EvOpenProcess rights False pid (Inr ph),
                      EvOpenProcessToken ph TOKEN_QUERY (Inl err),
                      EvCloseHandle ph (os_CloseHandle p ph),
                      EvRevertToSelf (os_RevertToSelf p), EvUnlockOSThread])
     \<and> (os_ImpersonateSelf p SecurityImpersonation = None \<and> fst elev = None
         \<and> os_OpenProcess p rights False pid = Inr ph
         \<and> os_OpenProcessToken p ph TOKEN_QUERY = Inr pt
         \<and> os_Environ p pt False = Inl err \<longrightarrow>
        res = Some err
        \<and> calls = [EvLockOSThread, EvImpersonateSelf SecurityImpersonation None] @ snd elev
                   @ [EvOpenProcess rights False pid (Inr ph),
                      EvOpenProcessToken ph TOKEN_QUERY (Inr pt),
                      EvEnviron pt False (Inl err),
                      EvCloseHandle pt (os_CloseHandle p pt),
                      EvCloseHandle ph (os_CloseHandle p ph),
                      EvRevertToSelf (os_RevertToSelf p), EvUnlockOSThread])
     \<and> (os_ImpersonateSelf p SecurityImpersonation = None \<and> fst elev = None
         \<and> os_OpenProcess p rights False pid = Inr ph
         \<and> os_OpenProcessToken p ph TOKEN_QUERY = Inr pt
         \<and> os_Environ p pt False = Inr env \<longrightarrow>
        res = os_Start p x (env @ e) ph
        \<and> calls = [EvLockOSThread, EvImpersonateSelf SecurityImpersonation None] @ snd elev
                   @ [EvOpenProcess rights False pid (Inr ph),
                      EvOpenProcessToken ph TOKEN_QUERY (Inr pt),
                      EvEnviron pt False (Inr env),
                      EvStart x (env @ e) ph (os_Start p x (env @ e) ph),
                      EvCloseHandle pt (os_CloseHandle p pt),
                      EvCloseHandle ph (os_CloseHandle p ph),
                      EvRevertToSelf (os_RevertToSelf p), EvUnlockOSThread])
     \<and> elevation_in_scope False [] calls"
proof -
  note unfold = StartProcessAsChild_unfold StartProcessAsChild_impersonating_unfold
    StartProcessAsChild_process_unfold
  have r: "res = fst (StartProcessAsChild p pid x e [])"
    unfolding res_def by (rule fst_StartProcessAsChild)
  have c: "calls = snd (StartProcessAsChild p pid x e [])"
    unfolding calls_def by (rule new_calls_StartProcessAsChild)
  have 1: "os_ImpersonateSelf p SecurityImpersonation = Some err \<longrightarrow>
        res = Some err
        \<and> calls = [EvLockOSThread, EvImpersonateSelf SecurityImpersonation (Some err),
                   EvUnlockOSThread]"
    by (simp add: r c unfold)
  have 2: "os_ImpersonateSelf p SecurityImpersonation = None \<and> fst elev = Some err \<longrightarrow>
        res = Some err
        \<and> calls = [EvLockOSThread, EvImpersonateSelf SecurityImpersonation None] @ snd elev
                   @ [EvRevertToSelf (os_RevertToSelf p), EvUnlockOSThread]
        \<and> \<not> list_ex is_OpenProcess calls"
    using EnableCurrentThreadPrivilege_no_OpenProcess [of p "''SeDebugPrivilege''"]
    by (simp add: r c unfold elev_def is_OpenProcess_def)
  have 3: "os_ImpersonateSelf p SecurityImpersonation = None \<and> fst elev = None
         \<and> os_OpenProcess p rights False pid = Inl err \<longrightarrow>
        res = Some err
        \<and> calls = [EvLockOSThread, EvImpersonateSelf SecurityImpersonation None] @ snd elev
                   @ [EvOpenProcess rights False pid (Inl err),
                      EvRevertToSelf (os_RevertToSelf p), EvUnlockOSThread]"
    by (simp add: r c unfold elev_def rights_def)
  have 4: "os_ImpersonateSelf p SecurityImpersonation = None \<and> fst elev = None
         \<and> os_OpenProcess p rights False pid = Inr ph
         \<and> os_OpenProcessToken p ph TOKEN_QUERY = Inl err \<longrightarrow>
        res = Some err
        \<and> calls = [EvLockOSThread, EvImpersonateSelf SecurityImpersonation None] @ snd elev
                   @ [EvOpenProcess rights False pid (Inr ph),
                      EvOpenProcessToken ph TOKEN_QUERY (Inl err),
                      EvCloseHandle ph (os_CloseHandle p ph),
                      EvRevertToSelf (os_RevertToSelf p), EvUnlockOSThread]"
    by (simp add: r c unfold elev_def rights_def)
  have 5: "os_ImpersonateSelf p SecurityImpersonation = None \<and> fst elev = None
         \<and> os_OpenProcess p rights False pid = Inr ph
         \<and> os_OpenProcessToken p ph TOKEN_QUERY = Inr pt
         \<and> os_Environ p pt False = Inl err \<longrightarrow>
        res = Some err
        \<and> calls = [EvLockOSThread, EvImpersonateSelf SecurityImpersonation None] @ snd elev
                   @ [EvOpenProcess rights False pid (Inr ph),
                      EvOpenProcessToken ph TOKEN_QUERY (Inr pt),
                      EvEnviron pt False (Inl err),
                      EvCloseHandle pt (os_CloseHandle p pt),
                      EvCloseHandle ph (os_CloseHandle p ph),
                      EvRevertToSelf (os_RevertToSelf p), EvUnlockOSThread]"
    by (simp add: r c unfold elev_def rights_def)
  have 6: "os_ImpersonateSelf p SecurityImpersonation = None \<and> fst elev = None
         \<and> os_OpenProcess p rights False pid = Inr ph
         \<and> os_OpenProcessToken p ph TOKEN_QUERY = Inr pt
         \<and> os_Environ p pt False = Inr env \<longrightarrow>
        res = os_Start p x (env @ e) ph
        \<and> calls = [EvLockOSThread, EvImpersonateSelf SecurityImpersonation None] @ snd elev
                   @ [EvOpenProcess rights False pid (Inr ph),
                      EvOpenProcessToken ph TOKEN_QUERY (Inr pt),
                      EvEnviron pt False (Inr env),
                      EvStart x (env @ e) ph (os_Start p x (env @ e) ph),
                      EvCloseHandle pt (os_CloseHandle p pt),
                      EvCloseHandle ph (os_CloseHandle p ph),
                      EvRevertToSelf (os_RevertToSelf p), EvUnlockOSThread]"
    by (simp add: r c unfold elev_def rights_def)
  have 7: "elevation_in_scope False [] calls"
    by (simp add: c unfold elevation_in_scope_EnableCurrentThreadPrivilege
        split: option.splits sum.splits)
  from 1 2 3 4 5 6 7 show ?thesis by blast
qed
theorem StartProcessAsChild_linear_witness:
  "StartProcessAsChild impersonate_fails 4242 ''notepad.exe'' [''C=3''] [] =
     (Some (Errno 1346),
      [EvLockOSThread, EvImpersonateSelf SecurityImpersonation (Some (Errno 1346)),
       EvUnlockOSThread])
   \<and> fst (StartProcessAsChild thread_token_fails 4242 ''notepad.exe'' [''C=3''] []) =
       Some (Errno 1008)
   \<and> \<not> list_ex is_OpenProcess
         (snd (StartProcessAsChild thread_token_fails 4242 ''notepad.exe'' [''C=3''] []))
   \<and> fst (StartProcessAsChild open_process_fails 4242 ''notepad.exe'' [''C=3''] []) =
       Some (Errno 5)
   \<and> fst (StartProcessAsChild process_token_fails 4242 ''notepad.exe'' [''C=3''] []) =
       Some (Errno 5)
   \<and> fst (StartProcessAsChild environ_fails 4242 ''notepad.exe'' [''C=3''] []) =
       Some (Errno 8)
   \<and> fst (StartProcessAsChild start_fails 4242 ''notepad.exe'' [''C=3''] []) =
       Some (ErrorString ''file does not exist'')
   \<and> fst (StartProcessAsChild machine 4242 ''notepad.exe'' [''C=3''] []) = None
   \<and> elevation_in_scope False []
         (snd (StartProcessAsChild machine 4242 ''notepad.exe'' [''C=3''] []))"
proof -
  note platforms = machine_def impersonate_fails_def thread_token_fails_def
    open_process_fails_def process_token_fails_def environ_fails_def start_fails_def
  have 1: "StartProcessAsChild impersonate_fails 4242 ''notepad.exe'' [''C=3''] [] =
     (Some (Errno 1346),
      [EvLockOSThread, EvImpersonateSelf SecurityImpersonation (Some (Errno 1346)),
       EvUnlockOSThread])"
    using StartProcessAsChild_linear [where p = impersonate_fails and pid = 4242
        and x = "''notepad.exe''" and e = "[''C=3'']" and w = "[]" and err = "Errno 1346"
        and ph = 0 and pt = 0 and env = "[]"]
    by (simp add: platforms new_calls_def prod_eq_iff)
  have 2: "fst (StartProcessAsChild thread_token_fails 4242 ''notepad.exe'' [''C=3''] []) =
       Some (Errno 1008)
     \<and> \<not> list_ex is_OpenProcess
         (snd (StartProcessAsChild thread_token_fails 4242 ''notepad.exe'' [''C=3''] []))"
    using StartProcessAsChild_linear [where p = thread_token_fails and pid = 4242
        and x = "''notepad.exe''" and e = "[''C=3'']" and w = "[]" and err = "Errno 1008"
        and ph = 0 and pt = 0 and env = "[]"]
    by (simp add: platforms new_calls_def EnableCurrentThreadPrivilege_unfold is_OpenProcess_def)
  have 3: "fst (StartProcessAsChild open_process_fails 4242 ''notepad.exe'' [''C=3''] []) =
       Some (Errno 5)"
    using StartProcessAsChild_linear [where p = open_process_fails and pid = 4242
        and x = "''notepad.exe''" and e = "[''C=3'']" and w = "[]" and err = "Errno 5"
        and ph = 0 and pt = 0 and env = "[]"]
    by (simp add: platforms new_calls_def EnableCurrentThreadPrivilege_unfold)
  have 4: "fst (StartProcessAsChild process_token_fails 4242 ''notepad.exe'' [''C=3''] []) =
       Some (Errno 5)"
    using StartProcessAsChild_linear [where p = process_token_fails and pid = 4242
        and x = "''notepad.exe''" and e = "[''C=3'']" and w = "[]" and err = "Errno 5"
        and ph = 200 and pt = 0 and env = "[]"]
    by (simp add: platforms new_calls_def EnableCurrentThreadPrivilege_unfold)
  have 5: "fst (StartProcessAsChild environ_fails 4242 ''notepad.exe'' [''C=3''] []) =
       Some (Errno 8)"
    using StartProcessAsChild_linear [where p = environ_fails and pid = 4242
        and x = "''notepad.exe''" and e = "[''C=3'']" and w = "[]" and err = "Errno 8"
        and ph = 200 and pt = 300 and env = "[]"]
    by (simp add: platforms new_calls_def EnableCurrentThreadPrivilege_unfold)
  have 6: "fst (StartProcessAsChild start_fails 4242 ''notepad.exe'' [''C=3''] []) =
       Some (ErrorString ''file does not exist'')"
    using StartProcessAsChild_linear [where p = start_fails and pid = 4242
        and x = "''notepad.exe''" and e = "[''C=3'']" and w = "[]" and err = "Errno 0"
        and ph = 200 and pt = 300 and env = "[''A=1'', ''B=2'']"]
    by (simp add: platforms new_calls_def EnableCurrentThreadPrivilege_unfold)
  have 7: "fst (StartProcessAsChild machine 4242 ''notepad.exe'' [''C=3''] []) = None
     \<and> elevation_in_scope False []
         (snd (StartProcessAsChild machine 4242 ''notepad.exe'' [''C=3''] []))"
    using StartProcessAsChild_linear [where p = machine and pid = 4242
        and x = "''notepad.exe''" and e = "[''C=3'']" and w = "[]" and err = "Errno 0"
        and ph = 200 and pt = 300 and env = "[''A=1'', ''B=2'']"]
    by (simp add: platforms new_calls_def EnableCurrentThreadPrivilege_unfold)
  from 1 2 3 4 5 6 7 show ?thesis by blast
qed

subsection \<open>The spawner: handles\<close>

lemma map_filter_app: "List.map_filter f (xs @ ys) = List.map_filter f xs @ List.map_filter f ys"
  by (simp add: List.map_filter_def)

lemma handles_after_EnableCurrentThreadPrivilege:
  "handles_after hs (snd (EnableCurrentThreadPrivilege p n []) @ evs) = handles_after hs evs"
  by (simp add: EnableCurrentThreadPrivilege_unfold opens_def closes_def split: sum.splits)

lemma opens_closes_EnableCurrentThreadPrivilege:
  "List.map_filter opens (snd (EnableCurrentThreadPrivilege p n []))
     = List.map_filter closes (snd (EnableCurrentThreadPrivilege p n []))"
  by (simp add: EnableCurrentThreadPrivilege_unfold opens_def closes_def List.map_filter_simps
      split: sum.splits)

text \<open>
  Claim C2. In every run of \<open>StartProcessAsChild\<close>, and of
  \<open>EnableCurrentThreadPrivilege\<close> on its own, whatever fails: replaying the calls of the
  run from no open handle never closes a handle that is not open and ends with no open
  handle, and every handle value is closed as many times as it was opened. So the thread
  token, the process handle and the process token are each closed exactly once before
  the function returns.
\<close>

theorem handles_closed_exactly_once:
  "handles_after [] (new_calls w (snd (StartProcessAsChild p pid x e w))) = Some []
   \<and> count_list (List.map_filter opens (new_calls w (snd (StartProcessAsChild p pid x e w)))) h
       = count_list (List.map_filter closes (new_calls w (snd (StartProcessAsChild p pid x e w)))) h
   \<and> handles_after [] (new_calls w (snd (EnableCurrentThreadPrivilege p n w))) = Some []
   \<and> count_list (List.map_filter opens (new_calls w (snd (EnableCurrentThreadPrivilege p n w)))) h
       = count_list (List.map_filter closes (new_calls w (snd (EnableCurrentThreadPrivilege p n w)))) h"
proof -
  note unfold = StartProcessAsChild_unfold StartProcessAsChild_impersonating_unfold
    StartProcessAsChild_process_unfold
  have 1: "handles_after [] (snd (StartProcessAsChild p pid x e [])) = Some []"
    by (simp add: unfold handles_after_EnableCurrentThreadPrivilege opens_def closes_def
        split: option.splits sum.splits)
  have 2: "count_list (List.map_filter opens (snd (StartProcessAsChild p pid x e []))) h
       = count_list (List.map_filter closes (snd (StartProcessAsChild p pid x e []))) h"
    by (simp add: unfold opens_closes_EnableCurrentThreadPrivilege opens_def closes_def
        List.map_filter_simps map_filter_app split: option.splits sum.splits)
  have 3: "handles_after [] (snd (EnableCurrentThreadPrivilege p n [])) = Some []"
    using handles_after_EnableCurrentThreadPrivilege [of "[]" p n "[]"] by simp
  have 4: "count_list (List.map_filter opens (snd (EnableCurrentThreadPrivilege p n []))) h
       = count_list (List.map_filter closes (snd (EnableCurrentThreadPrivilege p n []))) h"
    by (simp add: opens_closes_EnableCurrentThreadPrivilege)
  from 1 2 3 4 show ?thesis
    by (simp only: new_calls_StartProcessAsChild new_calls_EnableCurrentThreadPrivilege simp_thms)
qed

theorem handles_closed_exactly_once_witness:
  "handles_after []
     [EvLockOSThread, EvImpersonateSelf SecurityImpersonation None,
      EvOpenThreadToken (TOKEN_QUERY OR TOKEN_ADJUST_PRIVILEGES) False (Inr 100),
      EvLookupPrivilegeValue (map (\<lambda>c. of_nat (of_char c)) ''SeDebugPrivilege'')
        (Inr \<lparr>LowPart = 20, HighPart = 0\<rparr>),
      EvAdjustTokenPrivileges 100 False
        \<lparr>PrivilegeCount = 1,
         Privileges = [\<lparr>Luid = \<lparr>LowPart = 20, HighPart = 0\<rparr>, Attributes = SE_PRIVILEGE_ENABLED\<rparr>]\<rparr>
        None,
      EvCloseHandle 100 None,
      EvOpenProcess (PROCESS_CREATE_PROCESS OR PROCESS_QUERY_INFORMATION OR PROCESS_DUP_HANDLE)
        False 4242 (Inr 200),
      EvOpenProcessToken 200 TOKEN_QUERY (Inr 300),
      EvEnviron 300 False (Inr [''A=1'', ''B=2'']),
      EvStart ''notepad.exe'' [''A=1'', ''B=2'', ''C=3''] 200 None,
      EvCloseHandle 300 None, EvCloseHandle 200 None,
      EvRevertToSelf None, EvUnlockOSThread] = Some []"
proof -
  have "snd (StartProcessAsChild machine 4242 ''notepad.exe'' [''C=3''] []) =
     [EvLockOSThread, EvImpersonateSelf SecurityImpersonation None,
      EvOpenThreadToken (TOKEN_QUERY OR TOKEN_ADJUST_PRIVILEGES) False (Inr 100),
      EvLookupPrivilegeValue (map (\<lambda>c. of_nat (of_char c)) ''SeDebugPrivilege'')
        (Inr \<lparr>LowPart = 20, HighPart = 0\<rparr>),
      EvAdjustTokenPrivileges 100 False
        \<lparr>PrivilegeCount = 1,
         Privileges = [\<lparr>Luid = \<lparr>LowPart = 20, HighPart = 0\<rparr>, Attributes = SE_PRIVILEGE_ENABLED\<rparr>]\<rparr>
        None,
      EvCloseHandle 100 None,
      EvOpenProcess (PROCESS_CREATE_PROCESS OR PROCESS_QUERY_INFORMATION OR PROCESS_DUP_HANDLE)
        False 4242 (Inr 200),
      EvOpenProcessToken 200 TOKEN_QUERY (Inr 300),
      EvEnviron 300 False (Inr [''A=1'', ''B=2'']),
      EvStart ''notepad.exe'' [''A=1'', ''B=2'', ''C=3''] 200 None,
      EvCloseHandle 300 None, EvCloseHandle 200 None,
      EvRevertToSelf None, EvUnlockOSThread]"
    by (simp add: StartProcessAsChild_unfold StartProcessAsChild_impersonating_unfold
        StartProcessAsChild_process_unfold EnableCurrentThreadPrivilege_unfold machine_def)
  with handles_closed_exactly_once [of "[]" machine 4242 "''notepad.exe''" "[''C=3'']" 0 "''x''"]
  show ?thesis
    by (simp add: new_calls_def)
qed

text \<open>The replay does tell a leak and a double close from a balanced log.\<close>

lemma handles_after_leak:
  "handles_after [] [EvOpenProcess a i pid (Inr h)] = Some [h]"
  by (simp add: opens_def closes_def)

lemma handles_after_double_close:
  "handles_after [] [EvOpenProcess a i pid (Inr h), EvCloseHandle h r, EvCloseHandle h r'] = None"
  by (simp add: opens_def closes_def)

subsection \<open>The spawner: thread pinning\<close>

lemma pinned_throughout_append:
  "\<not> list_ex is_lock_call evs \<Longrightarrow> 0 < d \<Longrightarrow>
     pinned_throughout d (evs @ evs') = pinned_throughout d evs'"
  by (induction evs) (auto simp: is_lock_call_def split: event.splits)

lemma lock_depth_append:
  "\<not> list_ex is_lock_call evs \<Longrightarrow> lock_depth d (evs @ evs') = lock_depth d evs'"
  by (induction evs) (auto simp: is_lock_call_def split: event.splits)

lemma StartProcessAsChild_locked_shape:
  "\<exists>rest. snd (StartProcessAsChild p pid x e []) =
       [EvLockOSThread,
        EvImpersonateSelf SecurityImpersonation (os_ImpersonateSelf p SecurityImpersonation)]
       @ rest @ [EvUnlockOSThread]
     \<and> \<not> list_ex is_lock_call rest"
  by (simp add: StartProcessAsChild_unfold StartProcessAsChild_impersonating_unfold
      StartProcessAsChild_process_unfold EnableCurrentThreadPrivilege_unfold is_lock_call_def
      split: option.splits sum.splits)

text \<open>
  Claim C9. Every run of \<open>StartProcessAsChild\<close> begins with \<open>LockOSThread\<close> and ends
  with \<open>UnlockOSThread\<close>, and neither is called in between. So the lock is taken before
  \<open>ImpersonateSelf\<close>, and every later call of the run, up to and including
  \<open>RevertToSelf\<close>, is made while the goroutine is wired to its thread: at a nesting
  depth above zero, whatever the depth was before. The run leaves the depth as it found
  it.
\<close>

theorem StartProcessAsChild_pinned:
  "(\<exists>rest. new_calls w (snd (StartProcessAsChild p pid x e w)) =
       [EvLockOSThread,
        EvImpersonateSelf SecurityImpersonation (os_ImpersonateSelf p SecurityImpersonation)]
       @ rest @ [EvUnlockOSThread]
     \<and> \<not> list_ex is_lock_call rest)
   \<and> pinned_throughout d (new_calls w (snd (StartProcessAsChild p pid x e w)))
   \<and> lock_depth d (new_calls w (snd (StartProcessAsChild p pid x e w))) = d"
proof -
  obtain rest where rest: "snd (StartProcessAsChild p pid x e []) =
       [EvLockOSThread,
        EvImpersonateSelf SecurityImpersonation (os_ImpersonateSelf p SecurityImpersonation)]
       @ rest @ [EvUnlockOSThread]"
    and none: "\<not> list_ex is_lock_call rest"
    using StartProcessAsChild_locked_shape by blast
  have "pinned_throughout (Suc d) (rest @ [EvUnlockOSThread])"
    using none by (simp add: pinned_throughout_append)
  then have 1: "pinned_throughout d (snd (StartProcessAsChild p pid x e []))"
    by (simp add: rest)
  have "lock_depth (Suc d) (rest @ [EvUnlockOSThread]) = d"
    using none by (simp add: lock_depth_append)
  then have 2: "lock_depth d (snd (StartProcessAsChild p pid x e [])) = d"
    by (simp add: rest)
  from rest none 1 2 show ?thesis
    by (simp only: new_calls_StartProcessAsChild) blast
qed

theorem StartProcessAsChild_pinned_witness:
  "pinned_throughout 0 (snd (StartProcessAsChild machine 4242 ''notepad.exe'' [''C=3''] []))
   \<and> lock_depth 0 (snd (StartProcessAsChild machine 4242 ''notepad.exe'' [''C=3''] [])) = 0
   \<and> \<not> pinned_throughout 0 [EvImpersonateSelf SecurityImpersonation None, EvLockOSThread]"
  using StartProcessAsChild_pinned [of "[]" machine 4242 "''notepad.exe''" "[''C=3'']" 0]
  by (simp add: new_calls_def)

subsection \<open>The spawner: the environment of the new process\<close>

lemma EnableCurrentThreadPrivilege_no_Environ_or_Start:
  "filter is_Environ_or_Start (snd (EnableCurrentThreadPrivilege p n [])) = []"
  by (simp add: EnableCurrentThreadPrivilege_unfold is_Environ_or_Start_def split: sum.splits)

text \<open>
  Claim C4. When the steps before it succeed, \<open>StartProcessAsChild\<close> reads the
  environment once, from the token of the process it opened for \<open>parentPID\<close> and
  without inheriting the caller's own environment (\<open>inheritExisting\<close> is false), and
  starts the command once, with that block followed by \<open>extraEnv\<close>: the entries of both
  in their order, the block's entries unchanged in front, nothing removed or merged. The
  result of the call is the result of starting the command.
\<close>

theorem StartProcessAsChild_environment:
  "os_ImpersonateSelf p SecurityImpersonation = None
   \<and> fst (EnableCurrentThreadPrivilege p ''SeDebugPrivilege'' []) = None
   \<and> os_OpenProcess p
        (PROCESS_CREATE_PROCESS OR PROCESS_QUERY_INFORMATION OR PROCESS_DUP_HANDLE)
        False parentPID = Inr ph
   \<and> os_OpenProcessToken p ph TOKEN_QUERY = Inr pt
   \<and> os_Environ p pt False = Inr env \<longrightarrow>
   filter is_Environ_or_Start (new_calls w (snd (StartProcessAsChild p parentPID exePath extraEnv w)))
     = [EvEnviron pt False (Inr env),
        EvStart exePath (env @ extraEnv) ph (os_Start p exePath (env @ extraEnv) ph)]
   \<and> fst (StartProcessAsChild p parentPID exePath extraEnv w)
       = os_Start p exePath (env @ extraEnv) ph
   \<and> take (length env) (env @ extraEnv) = env
   \<and> drop (length env) (env @ extraEnv) = extraEnv
   \<and> length (env @ extraEnv) = length env + length extraEnv"
proof (intro impI)
  assume a: "os_ImpersonateSelf p SecurityImpersonation = None
   \<and> fst (EnableCurrentThreadPrivilege p ''SeDebugPrivilege'' []) = None
   \<and> os_OpenProcess p
        (PROCESS_CREATE_PROCESS OR PROCESS_QUERY_INFORMATION OR PROCESS_DUP_HANDLE)
        False parentPID = Inr ph
   \<and> os_OpenProcessToken p ph TOKEN_QUERY = Inr pt
   \<and> os_Environ p pt False = Inr env"
  note unfold = StartProcessAsChild_unfold StartProcessAsChild_impersonating_unfold
    StartProcessAsChild_process_unfold
  from a have 1:
    "filter is_Environ_or_Start (snd (StartProcessAsChild p parentPID exePath extraEnv []))
     = [EvEnviron pt False (Inr env),
        EvStart exePath (env @ extraEnv) ph (os_Start p exePath (env @ extraEnv) ph)]"
    by (simp add: unfold EnableCurrentThreadPrivilege_no_Environ_or_Start is_Environ_or_Start_def)
  from a have 2: "fst (StartProcessAsChild p parentPID exePath extraEnv [])
       = os_Start p exePath (env @ extraEnv) ph"
    by (simp add: unfold)
  have 3: "fst (StartProcessAsChild p parentPID exePath extraEnv w)
       = os_Start p exePath (env @ extraEnv) ph"
    using 2 fst_StartProcessAsChild [of p parentPID exePath extraEnv w] by simp
  from 1 3 show "filter is_Environ_or_Start
       (new_calls w (snd (StartProcessAsChild p parentPID exePath extraEnv w)))
     = [EvEnviron pt False (Inr env),
        EvStart exePath (env @ extraEnv) ph (os_Start p exePath (env @ extraEnv) ph)]
   \<and> fst (StartProcessAsChild p parentPID exePath extraEnv w)
       = os_Start p exePath (env @ extraEnv) ph
   \<and> take (length env) (env @ extraEnv) = env
   \<and> drop (length env) (env @ extraEnv) = extraEnv
   \<and> length (env @ extraEnv) = length env + length extraEnv"
    by (simp add: new_calls_StartProcessAsChild)
qed

theorem StartProcessAsChild_environment_witness:
  "filter is_Environ_or_Start (snd (StartProcessAsChild machine 4242 ''notepad.exe'' [''C=3''] []))
     = [EvEnviron 300 False (Inr [''A=1'', ''B=2'']),
        EvStart ''notepad.exe'' [''A=1'', ''B=2'', ''C=3''] 200 None]
   \<and> filter is_Environ_or_Start
        (snd (StartProcessAsChild machine 4242 ''notepad.exe'' [''B=9'', ''A=1''] []))
     = [EvEnviron 300 False (Inr [''A=1'', ''B=2'']),
        EvStart ''notepad.exe'' [''A=1'', ''B=2'', ''B=9'', ''A=1''] 200 None]"
proof -
  have a: "os_ImpersonateSelf machine SecurityImpersonation = None
   \<and> fst (EnableCurrentThreadPrivilege machine ''SeDebugPrivilege'' []) = None
   \<and> os_OpenProcess machine
        (PROCESS_CREATE_PROCESS OR PROCESS_QUERY_INFORMATION OR PROCESS_DUP_HANDLE)
        False 4242 = Inr 200
   \<and> os_OpenProcessToken machine 200 TOKEN_QUERY = Inr 300
   \<and> os_Environ machine 300 False = Inr [''A=1'', ''B=2'']"
    by (simp add: machine_def EnableCurrentThreadPrivilege_unfold)
  have s: "os_Start machine x env ph = None" for x env ph
    by (simp add: machine_def)
  from a s show ?thesis
    using StartProcessAsChild_environment
        [of machine 4242 200 300 "[''A=1'', ''B=2'']" "[]" "''notepad.exe''" "[''C=3'']"]
      StartProcessAsChild_environment
        [of machine 4242 200 300 "[''A=1'', ''B=2'']" "[]" "''notepad.exe''" "[''B=9'', ''A=1'']"]
    by (simp add: new_calls_def)
qed

subsection \<open>The spawner: the impersonation scope\<close>

lemma context_after_append:
  "context_after c (evs @ evs') = context_after (context_after c evs) evs'"
  by (simp add: context_after_def)

lemma context_after_Nil [simp]: "context_after c [] = c"
  by (simp add: context_after_def)

lemma context_after_Cons [simp]:
  "context_after c (ev # evs) = context_after (context_step c ev) evs"
  by (simp add: context_after_def)

text \<open>The elevator changes the thread's token only: the handle it adjusts is the one it
  has just opened on the thread.\<close>

lemma EnableCurrentThreadPrivilege_primary:
  "primary (context_after c (snd (EnableCurrentThreadPrivilege p n []))) = primary c
   \<and> self_pid (context_after c (snd (EnableCurrentThreadPrivilege p n []))) = self_pid c"
  by (simp add: EnableCurrentThreadPrivilege_unfold context_step_def
      split: sum.splits option.splits)

lemma EnableCurrentThreadPrivilege_no_impersonation_call:
  "\<not> list_ex is_impersonation_call (snd (EnableCurrentThreadPrivilege p n []))"
  by (simp add: EnableCurrentThreadPrivilege_unfold is_impersonation_call_def split: sum.splits)

text \<open>Calls other than \<open>AdjustTokenPrivileges\<close> leave the primary token alone.\<close>

lemma context_step_primary:
  "(case ev of EvAdjustTokenPrivileges h d tp r \<Rightarrow> False | _ \<Rightarrow> True) \<Longrightarrow>
     primary (context_step c ev) = primary c \<and> self_pid (context_step c ev) = self_pid c"
  by (simp add: context_step_def split: event.splits option.splits sum.splits object.splits)

lemma StartProcessAsChild_impersonating_primary:
  "primary (context_after c (snd (StartProcessAsChild_impersonating p pid x e []))) = primary c
   \<and> self_pid (context_after c (snd (StartProcessAsChild_impersonating p pid x e []))) = self_pid c"
  by (simp add: StartProcessAsChild_impersonating_unfold StartProcessAsChild_process_unfold
      context_after_append EnableCurrentThreadPrivilege_primary context_step_primary
      split: option.splits sum.splits)

lemma StartProcessAsChild_impersonating_no_impersonation_call:
  "\<not> list_ex is_impersonation_call (snd (StartProcessAsChild_impersonating p pid x e []))"
  using EnableCurrentThreadPrivilege_no_impersonation_call [of p "''SeDebugPrivilege''"]
  by (simp add: StartProcessAsChild_impersonating_unfold StartProcessAsChild_process_unfold
      is_impersonation_call_def split: option.splits sum.splits)

text \<open>
  Claim C3. In every run of \<open>StartProcessAsChild\<close> in which \<open>ImpersonateSelf\<close>
  succeeds, whatever fails later: \<open>RevertToSelf\<close> is called, once, after every other
  call of the run except the final \<open>UnlockOSThread\<close>, and \<open>ImpersonateSelf\<close> is not
  called again. Read against the model of the security context, every run, whether
  \<open>ImpersonateSelf\<close> succeeds or not, leaves the privileges of the primary token of the
  process as they were; and when \<open>ImpersonateSelf\<close> and \<open>RevertToSelf\<close> both succeed,
  the thread has no impersonation token afterwards.
\<close>

theorem StartProcessAsChild_reverts:
  "(os_ImpersonateSelf p SecurityImpersonation = None \<longrightarrow>
      (\<exists>mid. new_calls w (snd (StartProcessAsChild p pid x e w)) =
           [EvLockOSThread, EvImpersonateSelf SecurityImpersonation None] @ mid
           @ [EvRevertToSelf (os_RevertToSelf p), EvUnlockOSThread]
         \<and> \<not> list_ex is_impersonation_call mid))
   \<and> primary (context_after c (new_calls w (snd (StartProcessAsChild p pid x e w)))) = primary c
   \<and> self_pid (context_after c (new_calls w (snd (StartProcessAsChild p pid x e w)))) = self_pid c
   \<and> (os_ImpersonateSelf p SecurityImpersonation = None \<and> os_RevertToSelf p = None \<longrightarrow>
        impersonation (context_after c (new_calls w (snd (StartProcessAsChild p pid x e w))))
          = None)"
proof -
  let ?calls = "snd (StartProcessAsChild p pid x e [])"
  let ?mid = "snd (StartProcessAsChild_impersonating p pid x e [])"
  have 1: "os_ImpersonateSelf p SecurityImpersonation = None \<longrightarrow>
      (\<exists>mid. ?calls = [EvLockOSThread, EvImpersonateSelf SecurityImpersonation None] @ mid
           @ [EvRevertToSelf (os_RevertToSelf p), EvUnlockOSThread]
         \<and> \<not> list_ex is_impersonation_call mid)"
    using StartProcessAsChild_impersonating_no_impersonation_call [of p pid x e]
    by (auto simp: StartProcessAsChild_unfold)
  have 2: "primary (context_after c ?calls) = primary c
      \<and> self_pid (context_after c ?calls) = self_pid c"
  proof (cases "os_ImpersonateSelf p SecurityImpersonation")
    case (Some err)
    then show ?thesis
      by (simp add: StartProcessAsChild_unfold context_step_def)
  next
    case None
    let ?c1 = "context_step (context_step c EvLockOSThread)
                 (EvImpersonateSelf SecurityImpersonation None)"
    have c1: "primary ?c1 = primary c \<and> self_pid ?c1 = self_pid c"
      by (simp add: context_step_def)
    have "primary (context_after ?c1 ?mid) = primary c
        \<and> self_pid (context_after ?c1 ?mid) = self_pid c"
      using StartProcessAsChild_impersonating_primary [of ?c1 p pid x e] c1 by simp
    with None show ?thesis
      by (simp add: StartProcessAsChild_unfold context_after_append context_step_primary)
  qed
  have 3: "os_ImpersonateSelf p SecurityImpersonation = None \<and> os_RevertToSelf p = None \<longrightarrow>
        impersonation (context_after c ?calls) = None"
    by (simp add: StartProcessAsChild_unfold context_after_append context_step_def)
  from 1 2 3 show ?thesis
    by (simp only: new_calls_StartProcessAsChild)
qed

theorem StartProcessAsChild_reverts_witness:
  "(\<exists>mid. snd (StartProcessAsChild thread_token_fails 4242 ''notepad.exe'' [''C=3''] []) =
        [EvLockOSThread, EvImpersonateSelf SecurityImpersonation None] @ mid
        @ [EvRevertToSelf None, EvUnlockOSThread])
   \<and> primary (context_after context0
         (snd (StartProcessAsChild thread_token_fails 4242 ''notepad.exe'' [''C=3''] []))) = []
   \<and> impersonation (context_after context0
         (snd (StartProcessAsChild thread_token_fails 4242 ''notepad.exe'' [''C=3''] []))) = None
   \<and> primary (context_after context0
         (snd (StartProcessAsChild machine 4242 ''notepad.exe'' [''C=3''] []))) = []
   \<and> impersonation (context_after context0
         (snd (StartProcessAsChild machine 4242 ''notepad.exe'' [''C=3''] []))) = None"
proof -
  have a: "os_ImpersonateSelf thread_token_fails SecurityImpersonation = None
      \<and> os_RevertToSelf thread_token_fails = None"
    by (simp add: thread_token_fails_def machine_def)
  have b: "os_ImpersonateSelf machine SecurityImpersonation = None
      \<and> os_RevertToSelf machine = None"
    by (simp add: machine_def)
  have c: "primary context0 = []"
    by (simp add: context0_def)
  from a b c show ?thesis
    using StartProcessAsChild_reverts
        [of thread_token_fails "[]" 4242 "''notepad.exe''" "[''C=3'']" context0]
      StartProcessAsChild_reverts [of machine "[]" 4242 "''notepad.exe''" "[''C=3'']" context0]
    by (simp add: new_calls_def) blast
qed

text \<open>The model of the security context does tell the two tokens apart: the same
  adjustment applied to a handle on the process's own primary token changes it.\<close>

lemma adjusting_primary_token_changes_it:
  "primary (context_after context0
     [EvOpenProcess a False 77 (Inr 1), EvOpenProcessToken 1 a' (Inr 2),
      EvAdjustTokenPrivileges 2 False
        \<lparr>PrivilegeCount = 1,
         Privileges = [\<lparr>Luid = \<lparr>LowPart = 20, HighPart = 0\<rparr>, Attributes = SE_PRIVILEGE_ENABLED\<rparr>]\<rparr>
        None])
   = [\<lparr>LowPart = 20, HighPart = 0\<rparr>]"
  by (simp add: context0_def context_step_def adjust_def enabled_by_def SE_PRIVILEGE_ENABLED_def)

subsection \<open>The public entry point\<close>

lemma GetDesktopPID_log:
  "\<exists>evs. snd (GetDesktopPID p w) = w @ evs \<and> \<not> list_ex is_spawner_call evs"
  by (simp add: GetDesktopPID_def Let_def is_spawner_call_def)

lemma GetDesktopPID_pid:
  "fst (GetDesktopPID p w) = Inr pid \<Longrightarrow>
     pid = os_GetWindowThreadProcessId p (os_GetShellWindow p) \<and> pid \<noteq> 0
     \<and> os_GetShellWindow p \<noteq> 0"
  by (auto simp: GetDesktopPID_def Let_def split: if_splits)

text \<open>
  Claim C6. \<open>StartProcessAsCurrentGUIUser\<close>: when \<open>GetDesktopPID\<close> fails, the result
  is a new error whose text is \<open>failed to find desktop: \<close> followed by the text of that
  error, and the run makes no call besides the locator's: \<open>StartProcessAsChild\<close> is not
  entered and no process is opened. When \<open>GetDesktopPID\<close> succeeds,
  \<open>StartProcessAsChild\<close> runs with the process id it found; its failure comes back as
  a new error whose text is \<open>failed to start executable: \<close> followed by the text of
  that failure, and its success is the success of the whole call.
\<close>

theorem StartProcessAsCurrentGUIUser_outcomes:
  "(fst (GetDesktopPID p w) = Inl err \<longrightarrow>
      StartProcessAsCurrentGUIUser p x e w =
        (Some (ErrorString (''failed to find desktop: '' @ Error p err)), snd (GetDesktopPID p w))
      \<and> \<not> list_ex is_spawner_call (new_calls w (snd (StartProcessAsCurrentGUIUser p x e w)))
      \<and> \<not> list_ex is_OpenProcess (new_calls w (snd (StartProcessAsCurrentGUIUser p x e w))))
   \<and> (fst (GetDesktopPID p w) = Inr pid \<longrightarrow>
      pid = os_GetWindowThreadProcessId p (os_GetShellWindow p)
      \<and> snd (StartProcessAsCurrentGUIUser p x e w)
          = snd (StartProcessAsChild p pid x e (snd (GetDesktopPID p w)))
      \<and> (fst (StartProcessAsChild p pid x e (snd (GetDesktopPID p w))) = Some err' \<longrightarrow>
            fst (StartProcessAsCurrentGUIUser p x e w)
              = Some (ErrorString (''failed to start executable: '' @ Error p err')))
      \<and> (fst (StartProcessAsChild p pid x e (snd (GetDesktopPID p w))) = None \<longrightarrow>
            fst (StartProcessAsCurrentGUIUser p x e w) = None))"
proof (intro conjI impI)
  assume a: "fst (GetDesktopPID p w) = Inl err"
  obtain evs where evs: "snd (GetDesktopPID p w) = w @ evs"
    and none: "\<not> list_ex is_spawner_call evs"
    using GetDesktopPID_log by blast
  from a show 1: "StartProcessAsCurrentGUIUser p x e w =
        (Some (ErrorString (''failed to find desktop: '' @ Error p err)), snd (GetDesktopPID p w))"
    by (cases "GetDesktopPID p w") (simp add: StartProcessAsCurrentGUIUser_def)
  from 1 evs none
  show 2: "\<not> list_ex is_spawner_call (new_calls w (snd (StartProcessAsCurrentGUIUser p x e w)))"
    by simp
  have "is_OpenProcess ev \<Longrightarrow> is_spawner_call ev" for ev
    by (cases ev) (simp_all add: is_OpenProcess_def is_spawner_call_def)
  with 2 show "\<not> list_ex is_OpenProcess (new_calls w (snd (StartProcessAsCurrentGUIUser p x e w)))"
    by (auto simp: list_ex_iff)
next
  assume a: "fst (GetDesktopPID p w) = Inr pid"
  then show "pid = os_GetWindowThreadProcessId p (os_GetShellWindow p)"
    by (simp add: GetDesktopPID_pid)
  from a show "snd (StartProcessAsCurrentGUIUser p x e w)
          = snd (StartProcessAsChild p pid x e (snd (GetDesktopPID p w)))"
    by (cases "GetDesktopPID p w")
       (simp add: StartProcessAsCurrentGUIUser_def split: prod.splits option.splits)
next
  assume "fst (GetDesktopPID p w) = Inr pid"
    and "fst (StartProcessAsChild p pid x e (snd (GetDesktopPID p w))) = Some err'"
  then show "fst (StartProcessAsCurrentGUIUser p x e w)
              = Some (ErrorString (''failed to start executable: '' @ Error p err'))"
    by (cases "GetDesktopPID p w")
       (auto simp: StartProcessAsCurrentGUIUser_def split: prod.splits option.splits)
next
  assume "fst (GetDesktopPID p w) = Inr pid"
    and "fst (StartProcessAsChild p pid x e (snd (GetDesktopPID p w))) = None"
  then show "fst (StartProcessAsCurrentGUIUser p x e w) = None"
    by (cases "GetDesktopPID p w")
       (auto simp: StartProcessAsCurrentGUIUser_def split: prod.splits option.splits)
qed

lemma decimal_1346: "decimal 1346 = ''1346''"
  by (simp add: decimal_small decimal_big digit_def)

theorem StartProcessAsCurrentGUIUser_outcomes_witness:
  "StartProcessAsCurrentGUIUser no_shell ''notepad.exe'' [''C=3''] [] =
     (Some (ErrorString ''failed to find desktop: no Shell process is present''),
      [EvGetShellWindow 0])
   \<and> fst (StartProcessAsCurrentGUIUser no_shell_pid ''notepad.exe'' [''C=3''] []) =
       Some (ErrorString ''failed to find desktop: invalid PID for HWND 65552'')
   \<and> fst (StartProcessAsCurrentGUIUser impersonate_fails ''notepad.exe'' [''C=3''] []) =
       Some (ErrorString ''failed to start executable: errno 1346'')
   \<and> fst (StartProcessAsCurrentGUIUser machine ''notepad.exe'' [''C=3''] []) = None"
proof -
  have a: "GetDesktopPID no_shell [] = (Inl ErrNoShell, [EvGetShellWindow 0])"
    by (simp add: GetDesktopPID_def no_shell_def machine_def)
  have b: "fst (GetDesktopPID no_shell_pid []) = Inl (ErrorString ''invalid PID for HWND 65552'')"
    by (simp add: GetDesktopPID_def no_shell_pid_def machine_def decimal_65552)
  have c: "fst (GetDesktopPID impersonate_fails []) = Inr 4242"
    by (simp add: GetDesktopPID_def impersonate_fails_def machine_def)
  have c': "fst (StartProcessAsChild impersonate_fails 4242 ''notepad.exe'' [''C=3'']
                  (snd (GetDesktopPID impersonate_fails []))) = Some (Errno 1346)"
    by (subst fst_StartProcessAsChild)
       (simp add: StartProcessAsChild_unfold impersonate_fails_def machine_def)
  have c'': "Error impersonate_fails (Errno 1346) = ''errno 1346''"
    by (simp add: impersonate_fails_def machine_def decimal_1346)
  have d: "fst (GetDesktopPID machine []) = Inr 4242"
    by (simp add: GetDesktopPID_def machine_def)
  have d': "fst (StartProcessAsChild machine 4242 ''notepad.exe'' [''C=3'']
                  (snd (GetDesktopPID machine []))) = None"
    by (subst fst_StartProcessAsChild)
       (simp add: StartProcessAsChild_unfold StartProcessAsChild_impersonating_unfold
        StartProcessAsChild_process_unfold EnableCurrentThreadPrivilege_unfold machine_def)
  from a have 1: "StartProcessAsCurrentGUIUser no_shell ''notepad.exe'' [''C=3''] [] =
     (Some (ErrorString ''failed to find desktop: no Shell process is present''),
      [EvGetShellWindow 0])"
    using StartProcessAsCurrentGUIUser_outcomes
      [of no_shell "[]" ErrNoShell "''notepad.exe''" "[''C=3'']" 0 ErrNoShell]
    by simp
  from b have 2: "fst (StartProcessAsCurrentGUIUser no_shell_pid ''notepad.exe'' [''C=3''] []) =
       Some (ErrorString ''failed to find desktop: invalid PID for HWND 65552'')"
    using StartProcessAsCurrentGUIUser_outcomes
      [of no_shell_pid "[]" "ErrorString ''invalid PID for HWND 65552''" "''notepad.exe''"
        "[''C=3'']" 0 ErrNoShell]
    by simp
  from c c' c'' have 3:
    "fst (StartProcessAsCurrentGUIUser impersonate_fails ''notepad.exe'' [''C=3''] []) =
       Some (ErrorString ''failed to start executable: errno 1346'')"
    using StartProcessAsCurrentGUIUser_outcomes
      [of impersonate_fails "[]" ErrNoShell "''notepad.exe''" "[''C=3'']" 4242 "Errno 1346"]
    by simp
  from d d' have 4: "fst (StartProcessAsCurrentGUIUser machine ''notepad.exe'' [''C=3''] []) = None"
    using StartProcessAsCurrentGUIUser_outcomes
      [of machine "[]" ErrNoShell "''notepad.exe''" "[''C=3'']" 4242 ErrNoShell]
    by simp
  from 1 2 3 4 show ?thesis by blast
qed

subsection \<open>The tiered configuration lookup\<close>

lemma regBase_neq_regPolicyBase: "regBase \<noteq> regPolicyBase"
  by (simp add: regBase_def regPolicyBase_def)

lemma getRegStringInternal_log:
  "\<exists>rest. snd (getRegStringInternal p subKey name w)
       = w @ EvOpenKey subKey (os_OpenKey p subKey) # rest
     \<and> \<not> list_ex (opens_key k) rest"
  by (simp add: getRegStringInternal_def Let_def opens_key_def split: sum.splits)

lemma getRegIntegerInternal_log:
  "\<exists>rest. snd (getRegIntegerInternal p subKey name w)
       = w @ EvOpenKey subKey (os_OpenKey p subKey) # rest
     \<and> \<not> list_ex (opens_key k) rest"
  by (simp add: getRegIntegerInternal_def Let_def opens_key_def split: sum.splits)

text \<open>
  Claim C8. \<open>getPolicyString\<close> and \<open>getPolicyInteger\<close>, for every name and default:
  the first registry call is always the open of the policy key. If the read under the
  policy key yields a value, that value is the result and the legacy key is not opened.
  If it yields an error, the legacy key is read next, in the log as the policy read left
  it: a value there is the result, and an error there makes the result the caller's
  default.
\<close>

theorem getPolicy_tiers:
  "(\<exists>rest. new_calls w (snd (getPolicyString p name defval w))
        = EvOpenKey regPolicyBase (os_OpenKey p regPolicyBase) # rest)
   \<and> (getRegStringInternal p regPolicyBase name w = (Inr s, w1) \<longrightarrow>
        getPolicyString p name defval w = (s, w1)
        \<and> \<not> list_ex (opens_key regBase) (new_calls w (snd (getPolicyString p name defval w))))
   \<and> (getRegStringInternal p regPolicyBase name w = (Inl err, w1)
        \<and> getRegStringInternal p regBase name w1 = (Inr s, w2) \<longrightarrow>
        getPolicyString p name defval w = (s, w2))
   \<and> (getRegStringInternal p regPolicyBase name w = (Inl err, w1)
        \<and> getRegStringInternal p regBase name w1 = (Inl err', w2) \<longrightarrow>
        getPolicyString p name defval w = (defval, w2))
   \<and> (\<exists>rest. new_calls w (snd (getPolicyInteger p name idefval w))
        = EvOpenKey regPolicyBase (os_OpenKey p regPolicyBase) # rest)
   \<and> (getRegIntegerInternal p regPolicyBase name w = (Inr i, w1) \<longrightarrow>
        getPolicyInteger p name idefval w = (i, w1)
        \<and> \<not> list_ex (opens_key regBase) (new_calls w (snd (getPolicyInteger p name idefval w))))
   \<and> (getRegIntegerInternal p regPolicyBase name w = (Inl err, w1)
        \<and> getRegIntegerInternal p regBase name w1 = (Inr i, w2) \<longrightarrow>
        getPolicyInteger p name idefval w = (i, w2))
   \<and> (getRegIntegerInternal p regPolicyBase name w = (Inl err, w1)
        \<and> getRegIntegerInternal p regBase name w1 = (Inl err', w2) \<longrightarrow>
        getPolicyInteger p name idefval w = (idefval, w2))"
proof (intro conjI impI)
  obtain r1 where r1: "snd (getRegStringInternal p regPolicyBase name w)
       = w @ EvOpenKey regPolicyBase (os_OpenKey p regPolicyBase) # r1"
    and n1: "\<not> list_ex (opens_key regBase) r1"
    using getRegStringInternal_log by blast
  obtain r2 where r2: "snd (getRegStringInternal p regBase name
                              (snd (getRegStringInternal p regPolicyBase name w)))
       = snd (getRegStringInternal p regPolicyBase name w)
         @ EvOpenKey regBase (os_OpenKey p regBase) # r2"
    using getRegStringInternal_log by blast
  show "\<exists>rest. new_calls w (snd (getPolicyString p name defval w))
        = EvOpenKey regPolicyBase (os_OpenKey p regPolicyBase) # rest"
    using r1 r2
    by (cases "getRegStringInternal p regPolicyBase name w";
        cases "getRegStringInternal p regBase name (snd (getRegStringInternal p regPolicyBase name w))")
       (auto simp: getPolicyString_def getRegString_def split: sum.splits)
  {
    assume a: "getRegStringInternal p regPolicyBase name w = (Inr s, w1)"
    then show 1: "getPolicyString p name defval w = (s, w1)"
      by (simp add: getPolicyString_def)
    from a r1 n1 1
    show "\<not> list_ex (opens_key regBase) (new_calls w (snd (getPolicyString p name defval w)))"
      using regBase_neq_regPolicyBase by (simp add: opens_key_def)
  }
  {
    assume "getRegStringInternal p regPolicyBase name w = (Inl err, w1)
        \<and> getRegStringInternal p regBase name w1 = (Inr s, w2)"
    then show "getPolicyString p name defval w = (s, w2)"
      by (simp add: getPolicyString_def getRegString_def)
  }
  {
    assume "getRegStringInternal p regPolicyBase name w = (Inl err, w1)
        \<and> getRegStringInternal p regBase name w1 = (Inl err', w2)"
    then show "getPolicyString p name defval w = (defval, w2)"
      by (simp add: getPolicyString_def getRegString_def)
  }
  obtain q1 where q1: "snd (getRegIntegerInternal p regPolicyBase name w)
       = w @ EvOpenKey regPolicyBase (os_OpenKey p regPolicyBase) # q1"
    and m1: "\<not> list_ex (opens_key regBase) q1"
    using getRegIntegerInternal_log by blast
  obtain q2 where q2: "snd (getRegIntegerInternal p regBase name
                              (snd (getRegIntegerInternal p regPolicyBase name w)))
       = snd (getRegIntegerInternal p regPolicyBase name w)
         @ EvOpenKey regBase (os_OpenKey p regBase) # q2"
    using getRegIntegerInternal_log by blast
  show "\<exists>rest. new_calls w (snd (getPolicyInteger p name idefval w))
        = EvOpenKey regPolicyBase (os_OpenKey p regPolicyBase) # rest"
    using q1 q2
    by (cases "getRegIntegerInternal p regPolicyBase name w";
        cases "getRegIntegerInternal p regBase name (snd (getRegIntegerInternal p regPolicyBase name w))")
       (auto simp: getPolicyInteger_def getRegInteger_def split: sum.splits)
  {
    assume a: "getRegIntegerInternal p regPolicyBase name w = (Inr i, w1)"
    then show 1: "getPolicyInteger p name idefval w = (i, w1)"
      by (simp add: getPolicyInteger_def)
    from a q1 m1 1
    show "\<not> list_ex (opens_key regBase) (new_calls w (snd (getPolicyInteger p name idefval w)))"
      using regBase_neq_regPolicyBase by (simp add: opens_key_def)
  }
  {
    assume "getRegIntegerInternal p regPolicyBase name w = (Inl err, w1)
        \<and> getRegIntegerInternal p regBase name w1 = (Inr i, w2)"
    then show "getPolicyInteger p name idefval w = (i, w2)"
      by (simp add: getPolicyInteger_def getRegInteger_def)
  }
  {
    assume "getRegIntegerInternal p regPolicyBase name w = (Inl err, w1)
        \<and> getRegIntegerInternal p regBase name w1 = (Inl err', w2)"
    then show "getPolicyInteger p name idefval w = (idefval, w2)"
      by (simp add: getPolicyInteger_def getRegInteger_def)
  }
qed
theorem getPolicy_tiers_witness:
  "fst (getPolicyString policy_set ''LogTarget'' ''none'' []) = ''policy''
   \<and> fst (getPolicyString machine ''LogTarget'' ''none'' []) = ''example''
   \<and> fst (getPolicyString nothing_set ''LogTarget'' ''none'' []) = ''none''
   \<and> fst (getPolicyInteger policy_set ''FlushDNSOnSessionUnlock'' 5 []) = 30
   \<and> fst (getPolicyInteger machine ''FlushDNSOnSessionUnlock'' 5 []) = 1
   \<and> fst (getPolicyInteger nothing_set ''FlushDNSOnSessionUnlock'' 5 []) = 5"
proof -
  note defs = policy_set_def nothing_set_def machine_def regBase_def regPolicyBase_def
  let ?s1 = "snd (getRegStringInternal policy_set regPolicyBase ''LogTarget'' [])"
  let ?s2 = "snd (getRegStringInternal machine regPolicyBase ''LogTarget'' [])"
  let ?s2' = "snd (getRegStringInternal machine regBase ''LogTarget'' ?s2)"
  let ?s3 = "snd (getRegStringInternal nothing_set regPolicyBase ''LogTarget'' [])"
  let ?s3' = "snd (getRegStringInternal nothing_set regBase ''LogTarget'' ?s3)"
  let ?i1 = "snd (getRegIntegerInternal policy_set regPolicyBase ''FlushDNSOnSessionUnlock'' [])"
  let ?i2 = "snd (getRegIntegerInternal machine regPolicyBase ''FlushDNSOnSessionUnlock'' [])"
  let ?i2' = "snd (getRegIntegerInternal machine regBase ''FlushDNSOnSessionUnlock'' ?i2)"
  let ?i3 = "snd (getRegIntegerInternal nothing_set regPolicyBase ''FlushDNSOnSessionUnlock'' [])"
  let ?i3' = "snd (getRegIntegerInternal nothing_set regBase ''FlushDNSOnSessionUnlock'' ?i3)"
  have a: "getRegStringInternal policy_set regPolicyBase ''LogTarget'' [] = (Inr ''policy'', ?s1)"
    by (simp add: getRegStringInternal_def defs)
  have b: "getRegStringInternal machine regPolicyBase ''LogTarget'' [] = (Inl (Errno 2), ?s2)
      \<and> getRegStringInternal machine regBase ''LogTarget'' ?s2 = (Inr ''example'', ?s2')"
    by (simp add: getRegStringInternal_def defs)
  have c: "getRegStringInternal nothing_set regPolicyBase ''LogTarget'' [] = (Inl (Errno 5), ?s3)
      \<and> getRegStringInternal nothing_set regBase ''LogTarget'' ?s3 = (Inl (Errno 5), ?s3')"
    by (simp add: getRegStringInternal_def defs)
  have d: "getRegIntegerInternal policy_set regPolicyBase ''FlushDNSOnSessionUnlock'' []
      = (Inr 30, ?i1)"
    by (simp add: getRegIntegerInternal_def defs)
  have e: "getRegIntegerInternal machine regPolicyBase ''FlushDNSOnSessionUnlock'' []
        = (Inl (Errno 2), ?i2)
      \<and> getRegIntegerInternal machine regBase ''FlushDNSOnSessionUnlock'' ?i2 = (Inr 1, ?i2')"
    by (simp add: getRegIntegerInternal_def defs)
  have f: "getRegIntegerInternal nothing_set regPolicyBase ''FlushDNSOnSessionUnlock'' []
        = (Inl (Errno 5), ?i3)
      \<and> getRegIntegerInternal nothing_set regBase ''FlushDNSOnSessionUnlock'' ?i3
        = (Inl (Errno 5), ?i3')"
    by (simp add: getRegIntegerInternal_def defs)
  from a have 1: "fst (getPolicyString policy_set ''LogTarget'' ''none'' []) = ''policy''"
    using getPolicy_tiers [where p = policy_set and w = "[]" and name = "''LogTarget''"
        and defval = "''none''" and s = "''policy''" and ?w1.0 = ?s1]
    by simp
  from b have 2: "fst (getPolicyString machine ''LogTarget'' ''none'' []) = ''example''"
    using getPolicy_tiers [where p = machine and w = "[]" and name = "''LogTarget''"
        and defval = "''none''" and s = "''example''" and ?w1.0 = ?s2 and ?w2.0 = ?s2'
        and err = "Errno 2"]
    by simp
  from c have 3: "fst (getPolicyString nothing_set ''LogTarget'' ''none'' []) = ''none''"
    using getPolicy_tiers [where p = nothing_set and w = "[]" and name = "''LogTarget''"
        and defval = "''none''" and ?w1.0 = ?s3 and ?w2.0 = ?s3'
        and err = "Errno 5" and err' = "Errno 5"]
    by simp
  from d have 4: "fst (getPolicyInteger policy_set ''FlushDNSOnSessionUnlock'' 5 []) = 30"
    using getPolicy_tiers [where p = policy_set and w = "[]"
        and name = "''FlushDNSOnSessionUnlock''" and idefval = 5 and i = 30 and ?w1.0 = ?i1]
    by simp
  from e have 5: "fst (getPolicyInteger machine ''FlushDNSOnSessionUnlock'' 5 []) = 1"
    using getPolicy_tiers [where p = machine and w = "[]"
        and name = "''FlushDNSOnSessionUnlock''" and idefval = 5 and i = 1
        and ?w1.0 = ?i2 and ?w2.0 = ?i2' and err = "Errno 2"]
    by simp
  from f have 6: "fst (getPolicyInteger nothing_set ''FlushDNSOnSessionUnlock'' 5 []) = 5"
    using getPolicy_tiers [where p = nothing_set and w = "[]"
        and name = "''FlushDNSOnSessionUnlock''" and idefval = 5
        and ?w1.0 = ?i3 and ?w2.0 = ?i3' and err = "Errno 5" and err' = "Errno 5"]
    by simp
  from 1 2 3 4 5 6 show ?thesis by blast
qed

end
